theory Spec2Isabelle
  imports Main "HOL-Library.Word"
begin

unbundle bit_operations_syntax

section \<open>Python values\<close>

text \<open>
  The values that reach \<^verbatim>\<open>cast_property\<close> in \<^verbatim>\<open>py2neo/primitives.py\<close>, one
  constructor for each class that the chain of \<^verbatim>\<open>isinstance\<close> tests tells apart.
  A float is its IEEE-754 binary64 bit pattern: the code only passes floats on, it never
  computes with them. A date, time or datetime is read by the code through
  \<^verbatim>\<open>isoformat()\<close> alone and a Decimal through \<^verbatim>\<open>float()\<close> alone, so each is
  modelled by the value of that call. The members of a set or frozenset are listed in
  the order in which the object iterates.
\<close>

type_synonym pyfloat = "64 word"

datatype temporal = Temporal (isoformat: string)

datatype decimal = Decimal (to_float: pyfloat)

datatype pyval =
    PNone
  | PBool bool
  | PFloat pyfloat
  | PInt int
  | PStr string
  | PFrozenset "pyval list"
  | PList "pyval list"
  | PSet "pyval list"
  | PTuple "pyval list"
  | PDatetime temporal
  | PDate temporal
  | PTime temporal
  | PDecimal decimal
  | PComplex (real_part: pyfloat) (imag_part: pyfloat)
  | PObject

datatype pytype =
    TNoneType | TBool | TFloat | TInt | TStr | TFrozenset | TList | TSet | TTuple
  | TDatetime | TDate | TTime | TDecimal | TComplex | TObject

fun type_of :: "pyval \<Rightarrow> pytype" where
  "type_of PNone = TNoneType"
| "type_of (PBool _) = TBool"
| "type_of (PFloat _) = TFloat"
| "type_of (PInt _) = TInt"
| "type_of (PStr _) = TStr"
| "type_of (PFrozenset _) = TFrozenset"
| "type_of (PList _) = TList"
| "type_of (PSet _) = TSet"
| "type_of (PTuple _) = TTuple"
| "type_of (PDatetime _) = TDatetime"
| "type_of (PDate _) = TDate"
| "type_of (PTime _) = TTime"
| "type_of (PDecimal _) = TDecimal"
| "type_of (PComplex _ _) = TComplex"
| "type_of PObject = TObject"

text \<open>
  \<^verbatim>\<open>issubclass\<close> on the built-in classes above: \<^verbatim>\<open>bool\<close> derives from
  \<^verbatim>\<open>int\<close> and \<^verbatim>\<open>datetime\<close> from \<^verbatim>\<open>date\<close>; every other pair is
  related only by identity.
\<close>

definition issubclass :: "pytype \<Rightarrow> pytype \<Rightarrow> bool" where
  "issubclass s t \<longleftrightarrow> s = t \<or> (s = TBool \<and> t = TInt) \<or> (s = TDatetime \<and> t = TDate)"

definition isinstance :: "pyval \<Rightarrow> pytype \<Rightarrow> bool" where
  "isinstance v t \<longleftrightarrow> issubclass (type_of v) t"

section \<open>Errors\<close>

text \<open>
  One constructor for each \<^verbatim>\<open>raise\<close> of the module and for each exception of the
  interpreter that the modelled code can meet:
  \<^item> \<open>OutOfRange\<close>: \<^verbatim>\<open>ValueError("Integer value out of range: %s" % value)\<close>;
  \<^item> \<open>NestedListNotAllowed\<close>: \<^verbatim>\<open>ValueError("Lists cannot contain nested collections")\<close>;
  \<^item> \<open>MixedListType\<close>: \<^verbatim>\<open>TypeError("List property items must be of similar types")\<close>;
  \<^item> \<open>InvalidPropertyType\<close>: \<^verbatim>\<open>TypeError("Invalid property type: %s" % type(value))\<close>;
  \<^item> \<open>UnsupportedOperand\<close>: the \<^verbatim>\<open>TypeError\<close> of an operator applied to operands
    that do not support it;
  \<^item> \<open>KeyError\<close>, \<open>AttributeError\<close>, \<open>IndexError\<close>: the interpreter's own.
\<close>

datatype error =
    OutOfRange int
  | NestedListNotAllowed
  | MixedListType
  | InvalidPropertyType pytype
  | UnsupportedOperand
  | KeyError
  | AttributeError
  | IndexError

section \<open>The property caster\<close>

definition JAVA_INTEGER_MIN_VALUE :: int where
  "JAVA_INTEGER_MIN_VALUE = - (2 ^ 63)"

definition JAVA_INTEGER_MAX_VALUE :: int where
  "JAVA_INTEGER_MAX_VALUE = 2 ^ 63 - 1"

text \<open>
  Modelled from the spec: \<^verbatim>\<open>py2neo.compat\<close> (\<^verbatim>\<open>integer\<close>, \<^verbatim>\<open>string\<close>) and
  \<^verbatim>\<open>py2neo.util.ustr\<close> are not part of the sources at hand. Following the data model of
  the specification, \<^verbatim>\<open>integer\<close> is the class of integers, \<^verbatim>\<open>string\<close> the class of
  text strings, and \<^verbatim>\<open>ustr\<close> gives the text string of a text string, which is the
  string itself.
\<close>

definition ustr :: "string \<Rightarrow> string" where
  "ustr s = s"

text \<open>
  \<^verbatim>\<open>cast_property\<close>, branch by branch. The \<^verbatim>\<open>for\<close> loop over the items of a
  collection is \<open>cast_items\<close>: its arguments are the items still to visit and the loop
  variables \<^verbatim>\<open>list_type\<close> and \<^verbatim>\<open>list_value\<close>. The nesting test sits inside the
  branch \<^verbatim>\<open>list_type is None\<close>, so it looks at the first item only.
\<close>

fun cast_property :: "pyval \<Rightarrow> error + pyval"
  and cast_items :: "pyval list \<Rightarrow> pytype option \<Rightarrow> pyval list \<Rightarrow> error + pyval list" where
  "cast_property (PBool b) = Inr (PBool b)"
| "cast_property (PFloat f) = Inr (PFloat f)"
| "cast_property (PInt i) =
     (if JAVA_INTEGER_MIN_VALUE \<le> i \<and> i \<le> JAVA_INTEGER_MAX_VALUE then Inr (PInt i)
      else Inl (OutOfRange i))"
| "cast_property (PStr s) = Inr (PStr (ustr s))"
| "cast_property (PFrozenset xs) = map_sum id PList (cast_items xs None [])"
| "cast_property (PList xs) = map_sum id PList (cast_items xs None [])"
| "cast_property (PSet xs) = map_sum id PList (cast_items xs None [])"
| "cast_property (PTuple xs) = map_sum id PList (cast_items xs None [])"
| "cast_property (PDatetime t) = Inr (PStr (isoformat t))"
| "cast_property (PDate t) = Inr (PStr (isoformat t))"
| "cast_property (PTime t) = Inr (PStr (isoformat t))"
| "cast_property (PDecimal d) = Inr (PFloat (to_float d))"
| "cast_property (PComplex re im) = Inr (PList [PFloat re, PFloat im])"
| "cast_property PNone = Inl (InvalidPropertyType TNoneType)"
| "cast_property PObject = Inl (InvalidPropertyType TObject)"
| "cast_items [] list_type list_value = Inr list_value"
| "cast_items (item # rest) list_type list_value =
     (case cast_property item of
        Inl e \<Rightarrow> Inl e
      | Inr item' \<Rightarrow>
          (case list_type of
             None \<Rightarrow>
               if type_of item' = TList then Inl NestedListNotAllowed
               else cast_items rest (Some (type_of item')) (list_value @ [item'])
           | Some t \<Rightarrow>
               if \<not> isinstance item' t then Inl MixedListType
               else cast_items rest (Some t) (list_value @ [item'])))"

text \<open>The members of a collection, for the four classes that the caster iterates.\<close>

fun items_of :: "pyval \<Rightarrow> pyval list option" where
  "items_of (PFrozenset xs) = Some xs"
| "items_of (PList xs) = Some xs"
| "items_of (PSet xs) = Some xs"
| "items_of (PTuple xs) = Some xs"
| "items_of _ = None"

section \<open>Dictionaries\<close>

text \<open>
  \<^verbatim>\<open>PropertySet\<close> derives from \<^verbatim>\<open>dict\<close>. A dictionary is the list of its items
  in insertion order, the order in which \<^verbatim>\<open>items()\<close> yields them: assigning to a key
  that is present keeps its place, a new key goes to the end. The keys of a dictionary
  are pairwise different.
\<close>

type_synonym 'v dict = "(string \<times> 'v) list"

definition dict_contains :: "'v dict \<Rightarrow> string \<Rightarrow> bool" where
  "dict_contains d k \<longleftrightarrow> map_of d k \<noteq> None"

fun dict_setitem :: "'v dict \<Rightarrow> string \<Rightarrow> 'v \<Rightarrow> 'v dict" where
  "dict_setitem [] k v = [(k, v)]"
| "dict_setitem ((k', v') # d) k v =
     (if k' = k then (k', v) # d else (k', v') # dict_setitem d k v)"

definition dict_delitem :: "'v dict \<Rightarrow> string \<Rightarrow> error + 'v dict" where
  "dict_delitem d k =
     (if dict_contains d k then Inr (filter (\<lambda>item. fst item \<noteq> k) d) else Inl KeyError)"

definition dict_get :: "pyval dict \<Rightarrow> string \<Rightarrow> pyval" where
  "dict_get d k = (case map_of d k of None \<Rightarrow> PNone | Some v \<Rightarrow> v)"

definition dict_setdefault :: "'v dict \<Rightarrow> string \<Rightarrow> 'v \<Rightarrow> 'v \<times> 'v dict" where
  "dict_setdefault d k dflt =
     (case map_of d k of Some v \<Rightarrow> (v, d) | None \<Rightarrow> (dflt, dict_setitem d k dflt))"

definition dict_clear :: "'v dict \<Rightarrow> 'v dict" where
  "dict_clear d = []"

text \<open>
  \<^verbatim>\<open>dict(iterable, **kwargs)\<close>: the pairs of the iterable, then the keyword arguments,
  each assigned in turn to a new dictionary.
\<close>

definition dict_ctor :: "(string \<times> 'v) list \<Rightarrow> (string \<times> 'v) list \<Rightarrow> 'v dict" where
  "dict_ctor iterable kwargs = foldl (\<lambda>d (k, v). dict_setitem d k v) [] (iterable @ kwargs)"

section \<open>Equality of values\<close>

text \<open>
  The operator \<^verbatim>\<open>==\<close> on values, as \<^verbatim>\<open>dict.__eq__\<close> applies it to the values of
  two dictionaries. A float is read from its bit pattern: one sign bit, eleven bits of
  exponent, fifty-two bits of fraction. A NaN has all exponent bits set and a fraction
  that is not zero.
\<close>

definition float_negative :: "pyfloat \<Rightarrow> bool" where
  "float_negative f \<longleftrightarrow> 2 ^ 63 \<le> unat f"

definition float_exponent :: "pyfloat \<Rightarrow> nat" where
  "float_exponent f = (unat f div 2 ^ 52) mod 2 ^ 11"

definition float_fraction :: "pyfloat \<Rightarrow> nat" where
  "float_fraction f = unat f mod 2 ^ 52"

definition is_nan :: "pyfloat \<Rightarrow> bool" where
  "is_nan f \<longleftrightarrow> float_exponent f = 2047 \<and> float_fraction f \<noteq> 0"

definition is_zero :: "pyfloat \<Rightarrow> bool" where
  "is_zero f \<longleftrightarrow> float_exponent f = 0 \<and> float_fraction f = 0"

text \<open>
  Two floats are equal when neither is a NaN and they are the same number: the same bit
  pattern, or two zeros of either sign.
\<close>

definition float_eq :: "pyfloat \<Rightarrow> pyfloat \<Rightarrow> bool" where
  "float_eq x y \<longleftrightarrow> \<not> is_nan x \<and> \<not> is_nan y \<and> (x = y \<or> (is_zero x \<and> is_zero y))"

text \<open>
  An integer and a float are compared exactly. A finite float is
  \<open>\<plusminus> m * 2 ^ x\<close> with \<open>m = 2 ^ 52 + fraction\<close> and \<open>x = exponent - 1075\<close>, or, when
  the exponent bits are zero, \<open>m = fraction\<close> and \<open>x = - 1074\<close>; infinities and NaNs
  equal no integer.
\<close>

definition int_float_eq :: "int \<Rightarrow> pyfloat \<Rightarrow> bool" where
  "int_float_eq i f \<longleftrightarrow>
     float_exponent f \<noteq> 2047 \<and>
     (let m = (if float_exponent f = 0 then int (float_fraction f)
               else 2 ^ 52 + int (float_fraction f));
          x = (if float_exponent f = 0 then - 1074 else int (float_exponent f) - 1075);
          sm = (if float_negative f then - m else m)
      in if 0 \<le> x then i = sm * 2 ^ nat x else i * 2 ^ nat (- x) = sm)"

datatype number = NInt int | NFloat pyfloat

text \<open>The numbers among the values: a boolean counts as the integer 0 or 1.\<close>

fun numeric :: "pyval \<Rightarrow> number option" where
  "numeric (PBool b) = Some (NInt (if b then 1 else 0))"
| "numeric (PInt i) = Some (NInt i)"
| "numeric (PFloat f) = Some (NFloat f)"
| "numeric _ = None"

fun number_eq :: "number \<Rightarrow> number \<Rightarrow> bool" where
  "number_eq (NInt a) (NInt b) \<longleftrightarrow> a = b"
| "number_eq (NInt a) (NFloat g) \<longleftrightarrow> int_float_eq a g"
| "number_eq (NFloat f) (NInt b) \<longleftrightarrow> int_float_eq b f"
| "number_eq (NFloat f) (NFloat g) \<longleftrightarrow> float_eq f g"

text \<open>
  The comparison is modelled for \<^verbatim>\<open>None\<close>, booleans, integers, floats, strings, lists
  and tuples. A date or a Decimal is known to the model by one observation only, a set
  compares without regard to order, and an object of another class brings its own
  \<^verbatim>\<open>__eq__\<close>: where such a value takes part the answer is \<open>None\<close>, not determined
  by the model.
\<close>

fun modelled :: "pyval \<Rightarrow> bool" where
  "modelled PNone = True"
| "modelled (PBool _) = True"
| "modelled (PFloat _) = True"
| "modelled (PInt _) = True"
| "modelled (PStr _) = True"
| "modelled (PList _) = True"
| "modelled (PTuple _) = True"
| "modelled _ = False"

text \<open>
  \<^verbatim>\<open>==\<close> when the left operand is neither a list nor a tuple: \<^verbatim>\<open>None\<close> equals
  \<^verbatim>\<open>None\<close> only, strings compare as strings, numbers as numbers across their
  classes, and values of unrelated classes are unequal.
\<close>

definition scalar_eq :: "pyval \<Rightarrow> pyval \<Rightarrow> bool option" where
  "scalar_eq x y =
     (if \<not> modelled x \<or> \<not> modelled y then None
      else if x = PNone \<or> y = PNone then Some (x = PNone \<and> y = PNone)
      else
        (case (x, y) of
           (PStr s, PStr t) \<Rightarrow> Some (s = t)
         | _ \<Rightarrow>
             (case (numeric x, numeric y) of
                (Some a, Some b) \<Rightarrow> Some (number_eq a b)
              | _ \<Rightarrow> Some False)))"

text \<open>
  Containers compare their members with \<^verbatim>\<open>PyObject_RichCompareBool\<close>, here
  \<open>rich_eq\<close>: two members that are one and the same object are equal without being
  looked at, all others are compared with \<^verbatim>\<open>==\<close>. Which objects are the same is not a
  matter of their values; it is the parameter \<open>same\<close>, which says of each position,
  the list of indices that leads to it, whether the two operands hold one object there.
  A list or a tuple compares by length first and then member by member, up to the first
  pair that is not equal.
\<close>

fun rich_eq :: "(nat list \<Rightarrow> bool) \<Rightarrow> nat list \<Rightarrow> pyval \<Rightarrow> pyval \<Rightarrow> bool option"
  and py_eq :: "(nat list \<Rightarrow> bool) \<Rightarrow> nat list \<Rightarrow> pyval \<Rightarrow> pyval \<Rightarrow> bool option"
  and items_eq ::
    "(nat list \<Rightarrow> bool) \<Rightarrow> nat list \<Rightarrow> nat \<Rightarrow> pyval list \<Rightarrow> pyval list \<Rightarrow> bool option" where
  "rich_eq same p x y = (if same p then Some True else py_eq same p x y)"
| "py_eq same p (PList xs) y =
     (case y of
        PList ys \<Rightarrow> if length xs \<noteq> length ys then Some False else items_eq same p 0 xs ys
      | _ \<Rightarrow> if modelled y then Some False else None)"
| "py_eq same p (PTuple xs) y =
     (case y of
        PTuple ys \<Rightarrow> if length xs \<noteq> length ys then Some False else items_eq same p 0 xs ys
      | _ \<Rightarrow> if modelled y then Some False else None)"
| "py_eq same p x y = scalar_eq x y"
| "items_eq same p i (x # xs) (y # ys) =
     (case rich_eq same (p @ [i]) x y of
        Some True \<Rightarrow> items_eq same p (Suc i) xs ys
      | r \<Rightarrow> r)"
| "items_eq same p i xs ys = Some True"

text \<open>
  \<^verbatim>\<open>dict.__eq__\<close>: unequal when the numbers of items differ; otherwise each item of the
  left operand, in order, is looked up by its key in the right operand and the two
  values are compared as members are; the first key that is missing, or whose values are
  not equal, decides. \<open>same k\<close> tells which objects the two values under the key \<open>k\<close>
  share.
\<close>

fun dict_eq_items ::
  "(string \<Rightarrow> nat list \<Rightarrow> bool) \<Rightarrow> pyval dict \<Rightarrow> pyval dict \<Rightarrow> bool option" where
  "dict_eq_items same [] b = Some True"
| "dict_eq_items same ((k, v) # a) b =
     (case map_of b k of
        None \<Rightarrow> Some False
      | Some w \<Rightarrow>
          (case rich_eq (same k) [] v w of
             Some True \<Rightarrow> dict_eq_items same a b
           | r \<Rightarrow> r))"

definition dict_eq ::
  "(string \<Rightarrow> nat list \<Rightarrow> bool) \<Rightarrow> pyval dict \<Rightarrow> pyval dict \<Rightarrow> bool option" where
  "dict_eq same a b = (if length a \<noteq> length b then Some False else dict_eq_items same a b)"

text \<open>
  The values that equal themselves whatever objects hold them: values of the modelled
  classes in which no float is a NaN.
\<close>

fun nan_free :: "pyval \<Rightarrow> bool" where
  "nan_free PNone = True"
| "nan_free (PBool _) = True"
| "nan_free (PFloat f) = (\<not> is_nan f)"
| "nan_free (PInt _) = True"
| "nan_free (PStr _) = True"
| "nan_free (PList xs) = list_all nan_free xs"
| "nan_free (PTuple xs) = list_all nan_free xs"
| "nan_free _ = False"

text \<open>The two operands share no object.\<close>

definition no_sharing :: "string \<Rightarrow> nat list \<Rightarrow> bool" where
  "no_sharing k p \<longleftrightarrow> False"

section \<open>PropertySet\<close>

text \<open>
  A method that changes the \<^verbatim>\<open>PropertySet\<close> takes the state of \<^verbatim>\<open>self\<close> and
  returns, with its result or the exception it raised, the state it leaves behind: what
  was stored before an exception stays stored.
\<close>

type_synonym PropertySet = "pyval dict"

definition PropertySet_getitem :: "PropertySet \<Rightarrow> string \<Rightarrow> pyval" where
  "PropertySet_getitem self key = dict_get self key"

definition PropertySet_setitem ::
  "PropertySet \<Rightarrow> string \<Rightarrow> pyval \<Rightarrow> (error + unit) \<times> PropertySet" where
  "PropertySet_setitem self key val =
     (if val = PNone then
        (case dict_delitem self key of
           Inr self' \<Rightarrow> (Inr (), self')
         | Inl e \<Rightarrow> if e = KeyError then (Inr (), self) else (Inl e, self))
      else
        (case cast_property val of
           Inl e \<Rightarrow> (Inl e, self)
         | Inr val' \<Rightarrow> (Inr (), dict_setitem self key val')))"

text \<open>The loop of \<^verbatim>\<open>update\<close>: \<^verbatim>\<open>self[key] = value\<close> for each item in turn.\<close>

fun set_items :: "PropertySet \<Rightarrow> (string \<times> pyval) list \<Rightarrow> (error + unit) \<times> PropertySet" where
  "set_items self [] = (Inr (), self)"
| "set_items self ((key, val) # items) =
     (case PropertySet_setitem self key val of
        (Inl e, self') \<Rightarrow> (Inl e, self')
      | (Inr _, self') \<Rightarrow> set_items self' items)"

text \<open>
  \<^verbatim>\<open>iterable\<close> defaults to \<^verbatim>\<open>None\<close>, and \<^verbatim>\<open>iterable or {}\<close> turns
  \<^verbatim>\<open>None\<close> into the empty dictionary.
\<close>

definition PropertySet_update ::
  "PropertySet \<Rightarrow> (string \<times> pyval) list option \<Rightarrow> (string \<times> pyval) list \<Rightarrow>
   (error + unit) \<times> PropertySet" where
  "PropertySet_update self iterable kwargs =
     set_items self (dict_ctor (case iterable of None \<Rightarrow> [] | Some pairs \<Rightarrow> pairs) kwargs)"

definition PropertySet_replace ::
  "PropertySet \<Rightarrow> (string \<times> pyval) list option \<Rightarrow> (string \<times> pyval) list \<Rightarrow>
   (error + unit) \<times> PropertySet" where
  "PropertySet_replace self iterable kwargs = PropertySet_update (dict_clear self) iterable kwargs"

definition PropertySet_init ::
  "(string \<times> pyval) list option \<Rightarrow> (string \<times> pyval) list \<Rightarrow> (error + unit) \<times> PropertySet" where
  "PropertySet_init iterable kwargs = PropertySet_update [] iterable kwargs"

text \<open>
  \<^verbatim>\<open>setdefault\<close> hands a new key to \<^verbatim>\<open>dict.setdefault\<close>, which stores the default
  as it is given: \<^verbatim>\<open>cast_property\<close> is not called on this path.
\<close>

definition PropertySet_setdefault ::
  "PropertySet \<Rightarrow> string \<Rightarrow> pyval \<Rightarrow> (error + pyval) \<times> PropertySet" where
  "PropertySet_setdefault self key dflt =
     (if dict_contains self key then (Inr (PropertySet_getitem self key), self)
      else if dflt = PNone then (Inr PNone, self)
      else (case dict_setdefault self key dflt of (val, self') \<Rightarrow> (Inr val, self')))"

text \<open>
  \<^verbatim>\<open>__eq__\<close>: an operand that is not a \<^verbatim>\<open>PropertySet\<close> is made one first, which
  casts its values and can raise; then \<^verbatim>\<open>dict.__eq__\<close> compares. \<open>same\<close> is about the
  two dictionaries that are compared.
\<close>

datatype operand = IsPropertySet PropertySet | Mapping "(string \<times> pyval) list"

definition PropertySet_eq ::
  "(string \<Rightarrow> nat list \<Rightarrow> bool) \<Rightarrow> PropertySet \<Rightarrow> operand \<Rightarrow> error + bool option" where
  "PropertySet_eq same self other =
     (case other of
        IsPropertySet other' \<Rightarrow> Inr (dict_eq same self other')
      | Mapping m \<Rightarrow>
          (case PropertySet_init (Some m) [] of
             (Inl e, _) \<Rightarrow> Inl e
           | (Inr _, other') \<Rightarrow> Inr (dict_eq same self other')))"

text \<open>
  \<^verbatim>\<open>__hash__\<close>. The target of the \<^verbatim>\<open>for\<close> statement is named \<^verbatim>\<open>value\<close>, as the
  accumulator is: every round binds \<^verbatim>\<open>value\<close> to the value of the item before
  \<^verbatim>\<open>value ^= hash(...)\<close> runs, so what the round found in the accumulator is lost, and
  the operator \<^verbatim>\<open>^\<close> is applied to the item's value and an integer. \<open>py_xor\<close> is that
  operator: defined on integers and booleans, a \<^verbatim>\<open>TypeError\<close> on any other left
  operand. The built-in \<^verbatim>\<open>hash\<close> is the parameter \<open>h\<close>.
\<close>

fun py_xor :: "pyval \<Rightarrow> int \<Rightarrow> error + pyval" where
  "py_xor (PInt a) n = Inr (PInt (a XOR n))"
| "py_xor (PBool b) n = Inr (PInt ((if b then 1 else 0) XOR n))"
| "py_xor _ n = Inl UnsupportedOperand"

fun hash_loop :: "(pyval \<Rightarrow> int) \<Rightarrow> pyval \<Rightarrow> (string \<times> pyval) list \<Rightarrow> error + pyval" where
  "hash_loop h acc [] = Inr acc"
| "hash_loop h acc ((key, val) # items) =
     (case (case val of
              PList xs \<Rightarrow> py_xor val (h (PTuple [PStr key, PTuple xs]))
            | _ \<Rightarrow> py_xor val (h (PTuple [PStr key, val]))) of
        Inl e \<Rightarrow> Inl e
      | Inr acc' \<Rightarrow> hash_loop h acc' items)"

definition PropertySet_hash :: "(pyval \<Rightarrow> int) \<Rightarrow> PropertySet \<Rightarrow> error + pyval" where
  "PropertySet_hash h self = hash_loop h (PInt 0) self"

text \<open>
  The states a \<^verbatim>\<open>PropertySet\<close> can be in: made by \<^verbatim>\<open>dict.__init__\<close>, then changed
  by the methods of the class, whether they return or raise, and by the
  \<^verbatim>\<open>__delitem__\<close> of \<^verbatim>\<open>dict\<close> that \<^verbatim>\<open>PropertyContainer.__delitem__\<close> calls.
\<close>

inductive reachable :: "PropertySet \<Rightarrow> bool" where
  reachable_new: "reachable []"
| reachable_setitem:
    "reachable self \<Longrightarrow> PropertySet_setitem self key val = (r, self') \<Longrightarrow> reachable self'"
| reachable_update:
    "reachable self \<Longrightarrow> PropertySet_update self iterable kwargs = (r, self') \<Longrightarrow> reachable self'"
| reachable_replace:
    "reachable self \<Longrightarrow> PropertySet_replace self iterable kwargs = (r, self') \<Longrightarrow> reachable self'"
| reachable_setdefault:
    "reachable self \<Longrightarrow> PropertySet_setdefault self key dflt = (r', self') \<Longrightarrow> reachable self'"
| reachable_delitem:
    "reachable self \<Longrightarrow> dict_delitem self key = Inr self' \<Longrightarrow> reachable self'"

text \<open>
  A history of a \<^verbatim>\<open>PropertySet\<close>: the calls made on it since \<^verbatim>\<open>dict.__init__\<close>,
  each of which returned. \<open>run_op\<close> is \<open>None\<close> when the call raises.
\<close>

datatype op =
    SetItem string pyval
  | Update "(string \<times> pyval) list option" "(string \<times> pyval) list"
  | Replace "(string \<times> pyval) list option" "(string \<times> pyval) list"
  | SetDefault string pyval
  | DelItem string

fun run_op :: "PropertySet \<Rightarrow> op \<Rightarrow> PropertySet option" where
  "run_op self (SetItem key val) =
     (case PropertySet_setitem self key val of (Inr _, self') \<Rightarrow> Some self' | (Inl _, _) \<Rightarrow> None)"
| "run_op self (Update iterable kwargs) =
     (case PropertySet_update self iterable kwargs of
        (Inr _, self') \<Rightarrow> Some self' | (Inl _, _) \<Rightarrow> None)"
| "run_op self (Replace iterable kwargs) =
     (case PropertySet_replace self iterable kwargs of
        (Inr _, self') \<Rightarrow> Some self' | (Inl _, _) \<Rightarrow> None)"
| "run_op self (SetDefault key dflt) =
     (case PropertySet_setdefault self key dflt of
        (Inr _, self') \<Rightarrow> Some self' | (Inl _, _) \<Rightarrow> None)"
| "run_op self (DelItem key) =
     (case dict_delitem self key of Inr self' \<Rightarrow> Some self' | Inl _ \<Rightarrow> None)"

fun run :: "PropertySet \<Rightarrow> op list \<Rightarrow> PropertySet option" where
  "run self [] = Some self"
| "run self (c # cs) = (case run_op self c of None \<Rightarrow> None | Some self' \<Rightarrow> run self' cs)"

text \<open>
  The same history with nothing done to one key: the calls on that key are left out,
  and so are the entries for it in the arguments of \<^verbatim>\<open>update\<close> and \<^verbatim>\<open>replace\<close>.
\<close>

fun without_key :: "string \<Rightarrow> op list \<Rightarrow> op list" where
  "without_key key [] = []"
| "without_key key (SetItem k v # cs) =
     (if k = key then without_key key cs else SetItem k v # without_key key cs)"
| "without_key key (Update iterable kwargs # cs) =
     Update (map_option (filter (\<lambda>item. fst item \<noteq> key)) iterable)
       (filter (\<lambda>item. fst item \<noteq> key) kwargs) # without_key key cs"
| "without_key key (Replace iterable kwargs # cs) =
     Replace (map_option (filter (\<lambda>item. fst item \<noteq> key)) iterable)
       (filter (\<lambda>item. fst item \<noteq> key) kwargs) # without_key key cs"
| "without_key key (SetDefault k d # cs) =
     (if k = key then without_key key cs else SetDefault k d # without_key key cs)"
| "without_key key (DelItem k # cs) =
     (if k = key then without_key key cs else DelItem k # without_key key cs)"

text \<open>
  What every state in reach has in common: the keys are pairwise different and no key
  is mapped to \<^verbatim>\<open>None\<close>.
\<close>

definition stored_ok :: "PropertySet \<Rightarrow> bool" where
  "stored_ok d \<longleftrightarrow> distinct (map fst d) \<and> PNone \<notin> snd ` set d"

section \<open>Entity sets and graph views\<close>

text \<open>
  What a set of entities holds is a reference: \<^verbatim>\<open>None\<close>, a string, or an object of
  the heap named by its identity. Nodes and relationships compare and hash by identity,
  so two references to entities are equal exactly when they name the same object.
\<close>

datatype pyref = RNone | RStr string | RObj nat

type_synonym EntitySetView = "pyref set"

definition EntitySetView_or :: "EntitySetView \<Rightarrow> pyref set \<Rightarrow> EntitySetView" where
  "EntitySetView_or self other = self \<union> other"

definition EntitySetView_and :: "EntitySetView \<Rightarrow> pyref set \<Rightarrow> EntitySetView" where
  "EntitySetView_and self other = self \<inter> other"

definition EntitySetView_sub :: "EntitySetView \<Rightarrow> pyref set \<Rightarrow> EntitySetView" where
  "EntitySetView_sub self other = self - other"

definition EntitySetView_xor :: "EntitySetView \<Rightarrow> pyref set \<Rightarrow> EntitySetView" where
  "EntitySetView_xor self other = (self - other) \<union> (other - self)"

record GraphView =
  nodes :: EntitySetView
  relationships :: EntitySetView
  order :: nat
  size_view :: nat

definition GraphView_init :: "pyref set \<Rightarrow> pyref set \<Rightarrow> GraphView" where
  "GraphView_init ns rs =
     \<lparr>nodes = ns, relationships = rs, order = card ns, size_view = card rs\<rparr>"

text \<open>
  \<^verbatim>\<open>Node\<close> and \<^verbatim>\<open>Relationship\<close> derive from \<^verbatim>\<open>PropertyContainer\<close> and from
  \<^verbatim>\<open>GraphView\<close>: each is a graph view with more fields.
\<close>

record Entity = GraphView +
  properties :: PropertySet

record Node = Entity +
  labels :: "pyref set"

record Relationship = Entity +
  endpoints :: "pyref list"
  rel_type :: pyref

datatype object = NodeObj Node | RelationshipObj Relationship | GraphViewObj GraphView | OtherObj

type_synonym heap = "nat \<Rightarrow> object option"

text \<open>
  The attribute \<^verbatim>\<open>nodes\<close> of what a reference names: graph views, nodes and
  relationships have it, \<^verbatim>\<open>None\<close>, strings and other objects raise
  \<^verbatim>\<open>AttributeError\<close>.
\<close>

definition attr_nodes :: "heap \<Rightarrow> pyref \<Rightarrow> error + EntitySetView" where
  "attr_nodes H r =
     (case r of
        RObj a \<Rightarrow>
          (case H a of
             Some (NodeObj n) \<Rightarrow> Inr (nodes n)
           | Some (RelationshipObj rel) \<Rightarrow> Inr (nodes rel)
           | Some (GraphViewObj g) \<Rightarrow> Inr (nodes g)
           | _ \<Rightarrow> Inl AttributeError)
      | _ \<Rightarrow> Inl AttributeError)"

text \<open>
  \<^verbatim>\<open>set().union(*(rel.nodes for rel in relationships))\<close>: the generator is run to its
  end before \<^verbatim>\<open>union\<close> is called, so one member without the attribute raises; with no
  member at all \<^verbatim>\<open>union\<close> has no argument and returns the empty set.
\<close>

definition union_nodes :: "heap \<Rightarrow> pyref set \<Rightarrow> error + pyref set" where
  "union_nodes H rels =
     (if \<exists>rel\<in>rels. isl (attr_nodes H rel) then Inl AttributeError
      else Inr (\<Union>rel\<in>rels. projr (attr_nodes H rel)))"

definition GraphView_or :: "'a GraphView_scheme \<Rightarrow> 'b GraphView_scheme \<Rightarrow> GraphView" where
  "GraphView_or self other =
     GraphView_init (EntitySetView_or (nodes self) (nodes other))
       (EntitySetView_or (relationships self) (relationships other))"

definition GraphView_and :: "'a GraphView_scheme \<Rightarrow> 'b GraphView_scheme \<Rightarrow> GraphView" where
  "GraphView_and self other =
     GraphView_init (EntitySetView_and (nodes self) (nodes other))
       (EntitySetView_and (relationships self) (relationships other))"

definition GraphView_sub ::
  "heap \<Rightarrow> 'a GraphView_scheme \<Rightarrow> 'b GraphView_scheme \<Rightarrow> error + GraphView" where
  "GraphView_sub H self other =
     (let relationships' = EntitySetView_sub (relationships self) (relationships other) in
      case union_nodes H relationships' of
        Inl e \<Rightarrow> Inl e
      | Inr induced \<Rightarrow>
          Inr (GraphView_init
                 (EntitySetView_or (EntitySetView_sub (nodes self) (nodes other)) induced)
                 relationships'))"

definition GraphView_xor ::
  "heap \<Rightarrow> 'a GraphView_scheme \<Rightarrow> 'b GraphView_scheme \<Rightarrow> error + GraphView" where
  "GraphView_xor H self other =
     (let relationships' = EntitySetView_xor (relationships self) (relationships other) in
      case union_nodes H relationships' of
        Inl e \<Rightarrow> Inl e
      | Inr induced \<Rightarrow>
          Inr (GraphView_init
                 (EntitySetView_or (EntitySetView_xor (nodes self) (nodes other)) induced)
                 relationships'))"

section \<open>Nodes and relationships\<close>

definition PropertyContainer_init :: "(string \<times> pyval) list \<Rightarrow> error + PropertySet" where
  "PropertyContainer_init props =
     (case PropertySet_init (Some props) [] of
        (Inl e, _) \<Rightarrow> Inl e
      | (Inr _, ps) \<Rightarrow> Inr ps)"

text \<open>
  The constructors take the reference \<open>self\<close> to the object under construction, which
  the object puts into its own graph view.
\<close>

definition Node_init :: "pyref \<Rightarrow> pyref list \<Rightarrow> (string \<times> pyval) list \<Rightarrow> error + Node" where
  "Node_init self labels_arg props =
     (case PropertyContainer_init props of
        Inl e \<Rightarrow> Inl e
      | Inr ps \<Rightarrow>
          (let view = GraphView_init {self} {}
           in Inr \<lparr>nodes = nodes view, relationships = relationships view,
                    order = order view, size_view = size_view view,
                    properties = ps, labels = set labels_arg\<rparr>))"

definition Relationship_init ::
  "pyref \<Rightarrow> pyref list \<Rightarrow> (string \<times> pyval) list \<Rightarrow> error + Relationship" where
  "Relationship_init self args props =
     (case PropertyContainer_init props of
        Inl e \<Rightarrow> Inl e
      | Inr ps \<Rightarrow>
          (let num_args = length args;
               (endpoints', type') =
                 (if num_args = 0 then ([RNone, RNone], RNone)
                  else if num_args = 1 then ([RNone, RNone], args ! 0)
                  else if num_args = 2 then (args, RNone)
                  else (args ! 0 # drop 2 args, args ! 1));
               view = GraphView_init (set endpoints') {self}
           in Inr \<lparr>nodes = nodes view, relationships = relationships view,
                    order = order view, size_view = size_view view,
                    properties = ps, endpoints = endpoints', rel_type = type'\<rparr>))"

text \<open>Indexing a tuple, a negative index counting from the end.\<close>

definition py_index :: "'a list \<Rightarrow> int \<Rightarrow> error + 'a" where
  "py_index xs i =
     (let n = int (length xs); j = (if i < 0 then n + i else i)
      in if 0 \<le> j \<and> j < n then Inr (xs ! nat j) else Inl IndexError)"

definition Relationship_start :: "Relationship \<Rightarrow> error + pyref" where
  "Relationship_start self = py_index (endpoints self) 0"

definition Relationship_end :: "Relationship \<Rightarrow> error + pyref" where
  "Relationship_end self = py_index (endpoints self) (- 1)"

text \<open>
  \<open>relationship_at H rel R\<close>: the reference \<open>rel\<close> names the relationship \<open>R\<close> of the
  heap, whose node set is the set of its endpoints, as \<^verbatim>\<open>Relationship.__init__\<close> leaves
  it.
\<close>

definition relationship_at :: "heap \<Rightarrow> pyref \<Rightarrow> Relationship \<Rightarrow> bool" where
  "relationship_at H rel R \<longleftrightarrow>
     (case rel of
        RObj a \<Rightarrow> H a = Some (RelationshipObj R) \<and> nodes R = set (endpoints R)
      | _ \<Rightarrow> False)"

section \<open>Properties of the caster\<close>

lemma cast_items_canonical:
  "(\<forall>z\<in>set zs. cast_property z = Inr z \<and> isinstance z t) \<Longrightarrow> t \<noteq> TList \<Longrightarrow>
   cast_items zs (Some t) acc = Inr (acc @ zs)"
  by (induction zs arbitrary: acc) auto

lemma isinstance_type_of [simp]: "isinstance z (type_of z)"
  by (simp add: isinstance_def issubclass_def)

lemma isinstance_TList [simp]: "isinstance z TList \<longleftrightarrow> type_of z = TList"
  by (auto simp add: isinstance_def issubclass_def)

lemma cast_items_canonical_first:
  assumes "\<forall>z\<in>set zs. cast_property z = Inr z \<and> isinstance z (type_of (hd zs))"
    and "zs \<noteq> [] \<Longrightarrow> type_of (hd zs) \<noteq> TList"
  shows "cast_items zs None [] = Inr zs"
proof (cases zs)
  case Nil
  then show ?thesis by simp
next
  case (Cons z rest)
  with assms show ?thesis
    using cast_items_canonical [of rest "type_of z" "[z]"] by simp
qed

lemma cast_collection_again:
  assumes items: "\<forall>ys. cast_items xs None [] = Inr ys \<longrightarrow>
      map cast_property xs = map Inr ys \<and>
      (\<forall>z\<in>set ys. cast_property z = Inr z \<and> type_of z \<noteq> TList \<and>
         isinstance z (type_of (hd ys)))"
    and w: "map_sum id PList (cast_items xs None []) = Inr w"
  shows "cast_property w = Inr w"
proof -
  from w obtain ys where ys: "cast_items xs None [] = Inr ys" and wys: "w = PList ys"
    by (cases "cast_items xs None []") auto
  with items have can: "\<forall>z\<in>set ys. cast_property z = Inr z \<and> type_of z \<noteq> TList \<and>
      isinstance z (type_of (hd ys))"
    by simp
  then have "cast_items ys None [] = Inr ys"
    by (intro cast_items_canonical_first) auto
  with wys show ?thesis by simp
qed

lemma cast_sound:
  "(\<forall>w. cast_property v = Inr w \<longrightarrow> cast_property w = Inr w)"
  "(\<forall>ys. (\<forall>t. list_type = Some t \<longrightarrow> t \<noteq> TList) \<longrightarrow> cast_items xs list_type list_value = Inr ys \<longrightarrow>
     (\<exists>zs. ys = list_value @ zs \<and> map cast_property xs = map Inr zs \<and>
        (\<forall>z\<in>set zs. cast_property z = Inr z \<and> type_of z \<noteq> TList \<and>
           isinstance z (case list_type of Some t \<Rightarrow> t | None \<Rightarrow> type_of (hd zs)))))"
proof (induction v and xs list_type list_value rule: cast_property_cast_items.induct)
  case (17 item rest list_type list_value)
  show ?case
  proof (intro allI impI)
    fix ys
    assume lt: "\<forall>t. list_type = Some t \<longrightarrow> t \<noteq> TList"
      and run: "cast_items (item # rest) list_type list_value = Inr ys"
    from run obtain b where b: "cast_property item = Inr b"
      by (cases "cast_property item") auto
    with 17(1) have bb: "cast_property b = Inr b" by simp
    show "\<exists>zs. ys = list_value @ zs \<and> map cast_property (item # rest) = map Inr zs \<and>
        (\<forall>z\<in>set zs. cast_property z = Inr z \<and> type_of z \<noteq> TList \<and>
           isinstance z (case list_type of Some t \<Rightarrow> t | None \<Rightarrow> type_of (hd zs)))"
    proof (cases list_type)
      case None
      with run b have nl: "type_of b \<noteq> TList"
        and rest: "cast_items rest (Some (type_of b)) (list_value @ [b]) = Inr ys"
        by (auto split: if_splits)
      from 17(2) [OF b None nl] rest nl obtain zs where
        zs: "ys = (list_value @ [b]) @ zs" "map cast_property rest = map Inr zs"
          "\<forall>z\<in>set zs. cast_property z = Inr z \<and> type_of z \<noteq> TList \<and> isinstance z (type_of b)"
        by auto
      show ?thesis
        by (rule exI [of _ "b # zs"]) (use zs b bb nl None in simp)
    next
      case (Some t)
      with run b have inst: "isinstance b t"
        and rest: "cast_items rest (Some t) (list_value @ [b]) = Inr ys"
        by (auto split: if_splits)
      from lt Some have t: "t \<noteq> TList" by simp
      with inst have nl: "type_of b \<noteq> TList"
        by (auto simp: isinstance_def issubclass_def)
      from inst have "\<not> \<not> isinstance b t" by simp
      from 17(3) [OF b Some this] rest lt Some obtain zs where
        zs: "ys = (list_value @ [b]) @ zs" "map cast_property rest = map Inr zs"
          "\<forall>z\<in>set zs. cast_property z = Inr z \<and> type_of z \<noteq> TList \<and> isinstance z t"
        by auto
      show ?thesis
        by (rule exI [of _ "b # zs"]) (use zs b bb nl inst Some in simp)
    qed
  qed
next
  case (5 xs)
  show ?case
  proof (intro allI impI)
    fix w
    assume "cast_property (PFrozenset xs) = Inr w"
    then have "map_sum id PList (cast_items xs None []) = Inr w" by simp
    moreover from 5 have "\<forall>ys. cast_items xs None [] = Inr ys \<longrightarrow>
        map cast_property xs = map Inr ys \<and>
        (\<forall>z\<in>set ys. cast_property z = Inr z \<and> type_of z \<noteq> TList \<and>
           isinstance z (type_of (hd ys)))"
      by simp
    ultimately show "cast_property w = Inr w" by (rule cast_collection_again [rotated])
  qed
next
  case (6 xs)
  show ?case
  proof (intro allI impI)
    fix w
    assume "cast_property (PList xs) = Inr w"
    then have "map_sum id PList (cast_items xs None []) = Inr w" by simp
    moreover from 6 have "\<forall>ys. cast_items xs None [] = Inr ys \<longrightarrow>
        map cast_property xs = map Inr ys \<and>
        (\<forall>z\<in>set ys. cast_property z = Inr z \<and> type_of z \<noteq> TList \<and>
           isinstance z (type_of (hd ys)))"
      by simp
    ultimately show "cast_property w = Inr w" by (rule cast_collection_again [rotated])
  qed
next
  case (7 xs)
  show ?case
  proof (intro allI impI)
    fix w
    assume "cast_property (PSet xs) = Inr w"
    then have "map_sum id PList (cast_items xs None []) = Inr w" by simp
    moreover from 7 have "\<forall>ys. cast_items xs None [] = Inr ys \<longrightarrow>
        map cast_property xs = map Inr ys \<and>
        (\<forall>z\<in>set ys. cast_property z = Inr z \<and> type_of z \<noteq> TList \<and>
           isinstance z (type_of (hd ys)))"
      by simp
    ultimately show "cast_property w = Inr w" by (rule cast_collection_again [rotated])
  qed
next
  case (8 xs)
  show ?case
  proof (intro allI impI)
    fix w
    assume "cast_property (PTuple xs) = Inr w"
    then have "map_sum id PList (cast_items xs None []) = Inr w" by simp
    moreover from 8 have "\<forall>ys. cast_items xs None [] = Inr ys \<longrightarrow>
        map cast_property xs = map Inr ys \<and>
        (\<forall>z\<in>set ys. cast_property z = Inr z \<and> type_of z \<noteq> TList \<and>
           isinstance z (type_of (hd ys)))"
      by simp
    ultimately show "cast_property w = Inr w" by (rule cast_collection_again [rotated])
  qed
next
  case (3 i)
  then show ?case by (simp split: if_splits)
next
  case (13 re im)
  then show ?case by (auto simp: isinstance_def issubclass_def)
qed (simp_all add: ustr_def)


lemma cast_property_items_of:
  "items_of v = Some xs \<Longrightarrow> cast_property v = map_sum id PList (cast_items xs None [])"
  by (cases v) simp_all

lemma cast_collection_type:
  "items_of x = Some xs \<Longrightarrow> cast_property x = Inr z \<Longrightarrow> type_of z = TList"
  by (cases "cast_items xs None []") (auto simp: cast_property_items_of)

lemma cast_items_all_instances:
  "map cast_property xs = map Inr ys \<Longrightarrow> t \<noteq> TList \<Longrightarrow> \<forall>y\<in>set ys. isinstance y t \<Longrightarrow>
   cast_items xs (Some t) acc = Inr (acc @ ys)"
  by (induction xs arbitrary: ys acc) auto

lemma cast_items_some_other:
  "map cast_property xs = map Inr ys \<Longrightarrow> \<exists>y\<in>set ys. \<not> isinstance y t \<Longrightarrow>
   cast_items xs (Some t) acc = Inl MixedListType"
proof (induction xs arbitrary: ys acc)
  case Nil
  then show ?case by simp
next
  case (Cons x xs)
  from Cons.prems(1) obtain y ys' where ys: "ys = y # ys'" "cast_property x = Inr y"
    "map cast_property xs = map Inr ys'"
    by (cases ys) auto
  show ?case
  proof (cases "isinstance y t")
    case True
    with Cons.prems(2) ys have "\<exists>z\<in>set ys'. \<not> isinstance z t" by auto
    with ys(3) have "cast_items xs (Some t) (acc @ [y]) = Inl MixedListType"
      by (rule Cons.IH)
    with True ys show ?thesis by simp
  next
    case False
    with ys show ?thesis by simp
  qed
qed

lemma nested_fails:
  assumes "items_of v = Some xs" and "\<exists>x\<in>set xs. items_of x \<noteq> None"
  shows "\<exists>e. cast_property v = Inl e"
proof (cases "cast_items xs None []")
  case (Inl e)
  with assms show ?thesis by (simp add: cast_property_items_of)
next
  case (Inr ys)
  with cast_sound(2) [of None xs "[]"] have
    zs: "map cast_property xs = map Inr ys" "\<forall>z\<in>set ys. type_of z \<noteq> TList"
    by auto
  from assms(2) obtain x where x: "x \<in> set xs" "items_of x \<noteq> None" by blast
  then obtain i where i: "i < length xs" "xs ! i = x" by (auto simp: in_set_conv_nth)
  from zs(1) have len: "length ys = length xs" by (metis length_map)
  from zs(1) i len have "cast_property x = Inr (ys ! i)"
    by (metis nth_map)
  moreover from x(2) obtain xs' where "items_of x = Some xs'" by auto
  ultimately have "type_of (ys ! i) = TList" by (rule cast_collection_type [rotated])
  with zs(2) i len show ?thesis by auto
qed

lemma first_nested:
  assumes "items_of v = Some xs" and "map cast_property xs = map Inr ys"
    and "ys \<noteq> []" and "type_of (hd ys) = TList"
  shows "cast_property v = Inl NestedListNotAllowed"
  using assms by (cases xs; cases ys) (auto simp: cast_property_items_of)

lemma cast_result_type:
  "cast_property x = Inr y \<Longrightarrow> type_of y \<in> {TBool, TFloat, TInt, TStr, TList}"
proof (cases "items_of x")
  case None
  then show "cast_property x = Inr y \<Longrightarrow> ?thesis"
    by (cases x) (auto split: if_splits)
next
  case (Some xs)
  then show "cast_property x = Inr y \<Longrightarrow> ?thesis"
    by (simp add: cast_collection_type)
qed

lemma later_mixed:
  assumes "items_of v = Some xs" and "map cast_property xs = map Inr ys"
    and "ys \<noteq> []" and "type_of (hd ys) \<noteq> TList"
    and "\<exists>y\<in>set ys. type_of y \<noteq> type_of (hd ys) \<and> \<not> (type_of y = TBool \<and> type_of (hd ys) = TInt)"
  shows "cast_property v = Inl MixedListType"
proof -
  from assms(2,3) obtain x xs' y ys' where xs: "xs = x # xs'" "ys = y # ys'"
    "cast_property x = Inr y" "map cast_property xs' = map Inr ys'"
    by (cases xs; cases ys) auto
  from xs(3) have "type_of y \<noteq> TDate"
    by (auto dest: cast_result_type)
  with assms(5) xs have "\<exists>z\<in>set ys'. \<not> isinstance z (type_of y)"
    by (auto simp: isinstance_def issubclass_def)
  with xs(4) have "cast_items xs' (Some (type_of y)) [y] = Inl MixedListType"
    by (rule cast_items_some_other)
  with assms(1,4) xs show ?thesis by (simp add: cast_property_items_of)
qed

lemma same_type_ok:
  assumes "items_of v = Some xs" and "map cast_property xs = map Inr ys"
    and "\<forall>y\<in>set ys. type_of y = type_of (hd ys) \<and> type_of y \<noteq> TList"
  shows "cast_property v = Inr (PList ys)"
proof (cases ys)
  case Nil
  with assms show ?thesis by (simp add: cast_property_items_of)
next
  case (Cons y ys')
  with assms(2) obtain x xs' where xs: "xs = x # xs'"
    "cast_property x = Inr y" "map cast_property xs' = map Inr ys'"
    by (cases xs) auto
  from assms(3) Cons have "\<forall>z\<in>set ys'. isinstance z (type_of y)" "type_of y \<noteq> TList"
    by (auto simp: isinstance_def issubclass_def)
  with xs(3) have "cast_items xs' (Some (type_of y)) [y] = Inr ([y] @ ys')"
    by (intro cast_items_all_instances)
  with assms(1) xs Cons \<open>type_of y \<noteq> TList\<close> show ?thesis by (simp add: cast_property_items_of)
qed

subsection \<open>Integers\<close>

text \<open>
  Claim C6. For every integer \<open>i\<close>, \<open>cast_property\<close> returns \<open>i\<close> unchanged exactly
  when \<open>- 2 ^ 63 \<le> i \<le> 2 ^ 63 - 1\<close> and raises \<open>OutOfRange\<close> otherwise; the first
  integer below the range and the first one above it are both refused.
\<close>

theorem cast_property_integer_range:
  "(cast_property (PInt i) = Inr (PInt i) \<longleftrightarrow> - (2 ^ 63) \<le> i \<and> i \<le> 2 ^ 63 - 1) \<and>
   ((\<exists>w. cast_property (PInt i) = Inr w) \<longleftrightarrow> - (2 ^ 63) \<le> i \<and> i \<le> 2 ^ 63 - 1) \<and>
   (cast_property (PInt i) = Inl (OutOfRange i) \<longleftrightarrow> \<not> (- (2 ^ 63) \<le> i \<and> i \<le> 2 ^ 63 - 1)) \<and>
   cast_property (PInt (- (2 ^ 63) - 1)) = Inl (OutOfRange (- (2 ^ 63) - 1)) \<and>
   cast_property (PInt (2 ^ 63)) = Inl (OutOfRange (2 ^ 63)) \<and>
   cast_property (PInt (- (2 ^ 63))) = Inr (PInt (- (2 ^ 63))) \<and>
   cast_property (PInt (2 ^ 63 - 1)) = Inr (PInt (2 ^ 63 - 1))"
  by (simp add: JAVA_INTEGER_MIN_VALUE_def JAVA_INTEGER_MAX_VALUE_def)

theorem cast_property_integer_range_witness:
  "cast_property (PInt 42) = Inr (PInt 42) \<and>
   cast_property (PInt 9223372036854775808) = Inl (OutOfRange 9223372036854775808) \<and>
   cast_property (PInt (- 9223372036854775809)) = Inl (OutOfRange (- 9223372036854775809))"
  using cast_property_integer_range [of 42]
    cast_property_integer_range [of 9223372036854775808]
    cast_property_integer_range [of "- 9223372036854775809"]
  by simp

subsection \<open>Idempotence\<close>

text \<open>
  Claim C8. Whenever \<open>cast_property\<close> returns a value, casting that value again
  succeeds and returns it unchanged: \<open>cast(cast(v)) = cast(v)\<close>, for every kind of
  value, the strings that dates become, the floats that decimals become and the lists
  that complex numbers and collections become included. Equality is that of the values
  of the model: a float is compared as the bit pattern that the caster passes on.
\<close>

theorem cast_property_idempotent:
  "cast_property v = Inr w \<Longrightarrow> cast_property w = Inr w"
  using cast_sound(1) by blast

theorem cast_property_idempotent_witness:
  "cast_property (PTuple [PDecimal (Decimal 7), PFloat 9]) = Inr (PList [PFloat 7, PFloat 9]) \<and>
   cast_property (PList [PFloat 7, PFloat 9]) = Inr (PList [PFloat 7, PFloat 9]) \<and>
   cast_property (PComplex 1 2) = Inr (PList [PFloat 1, PFloat 2]) \<and>
   cast_property (PList [PFloat 1, PFloat 2]) = Inr (PList [PFloat 1, PFloat 2]) \<and>
   cast_property (PDate (Temporal ''2015-01-31'')) = Inr (PStr ''2015-01-31'') \<and>
   cast_property (PStr ''2015-01-31'') = Inr (PStr ''2015-01-31'')"
proof -
  have a: "cast_property (PTuple [PDecimal (Decimal 7), PFloat 9]) = Inr (PList [PFloat 7, PFloat 9])"
    by (simp add: isinstance_def issubclass_def)
  have b: "cast_property (PComplex 1 2) = Inr (PList [PFloat 1, PFloat 2])"
    by simp
  have c: "cast_property (PDate (Temporal ''2015-01-31'')) = Inr (PStr ''2015-01-31'')"
    by (simp add: ustr_def)
  from a b c cast_property_idempotent [OF a] cast_property_idempotent [OF b]
    cast_property_idempotent [OF c]
  show ?thesis by simp
qed

subsection \<open>Collections\<close>

text \<open>
  Claim C4, as stated, fails: a list whose first item is an integer and whose second
  item is a list raises \<open>MixedListType\<close>, not \<open>NestedListNotAllowed\<close>, since the test
  for nesting is made on the first item only.
\<close>

theorem cast_property_nested_later_counterexample:
  "cast_property (PList [PInt 1, PList [PInt 2]]) = Inl MixedListType \<and>
   cast_property (PList [PInt 1, PList [PInt 2]]) \<noteq> Inl NestedListNotAllowed"
  by (simp add: JAVA_INTEGER_MIN_VALUE_def JAVA_INTEGER_MAX_VALUE_def isinstance_def
      issubclass_def)

text \<open>
  Claim C4, amended. Let \<open>v\<close> be a collection with the items \<open>xs\<close>. If one of the items
  is itself a collection, casting \<open>v\<close> raises. If every item casts, to \<open>ys\<close>, then:
  when the cast of the first item is a list (the first item is a collection, or a
  complex number), the error is \<open>NestedListNotAllowed\<close>; when the cast of the first item
  is not a list and a later item casts to a value of another type (a list included), a
  boolean after a first integer apart, the error is \<open>MixedListType\<close>; when all the casts
  have the type of the first one and that is not the list type, the result is the list
  \<open>ys\<close>. The type of the first item is the one every later item is measured against.
\<close>

theorem cast_property_collection:
  assumes "items_of v = Some xs"
  shows "((\<exists>x\<in>set xs. items_of x \<noteq> None) \<longrightarrow> (\<exists>e. cast_property v = Inl e)) \<and>
    (map cast_property xs = map Inr ys \<longrightarrow>
       (ys \<noteq> [] \<and> type_of (hd ys) = TList \<longrightarrow> cast_property v = Inl NestedListNotAllowed) \<and>
       (ys \<noteq> [] \<and> type_of (hd ys) \<noteq> TList \<and>
        (\<exists>y\<in>set ys. type_of y \<noteq> type_of (hd ys) \<and>
           \<not> (type_of y = TBool \<and> type_of (hd ys) = TInt)) \<longrightarrow>
          cast_property v = Inl MixedListType) \<and>
       ((\<forall>y\<in>set ys. type_of y = type_of (hd ys) \<and> type_of y \<noteq> TList) \<longrightarrow>
          cast_property v = Inr (PList ys)))"
  using assms nested_fails [of v xs] first_nested [of v xs ys] later_mixed [of v xs ys]
    same_type_ok [of v xs ys]
  by blast

theorem cast_property_collection_witness:
  "(\<exists>e. cast_property (PList [PInt 1, PList [PInt 2]]) = Inl e) \<and>
   cast_property (PList [PTuple [PInt 1], PInt 2]) = Inl NestedListNotAllowed \<and>
   cast_property (PTuple [PInt 1, PStr ''a'']) = Inl MixedListType \<and>
   cast_property (PSet [PInt 1, PInt 2]) = Inr (PList [PInt 1, PInt 2])"
proof -
  have r: "JAVA_INTEGER_MIN_VALUE \<le> 1" "1 \<le> JAVA_INTEGER_MAX_VALUE"
    "JAVA_INTEGER_MIN_VALUE \<le> 2" "2 \<le> JAVA_INTEGER_MAX_VALUE"
    by (simp_all add: JAVA_INTEGER_MIN_VALUE_def JAVA_INTEGER_MAX_VALUE_def)
  have "\<exists>e. cast_property (PList [PInt 1, PList [PInt 2]]) = Inl e"
    using cast_property_collection [of "PList [PInt 1, PList [PInt 2]]" "[PInt 1, PList [PInt 2]]" "[]"]
    by simp
  moreover have "cast_property (PList [PTuple [PInt 1], PInt 2]) = Inl NestedListNotAllowed"
    using cast_property_collection [of "PList [PTuple [PInt 1], PInt 2]" "[PTuple [PInt 1], PInt 2]"
        "[PList [PInt 1], PInt 2]"] r
    by simp
  moreover have "cast_property (PTuple [PInt 1, PStr ''a'']) = Inl MixedListType"
    using cast_property_collection [of "PTuple [PInt 1, PStr ''a'']" "[PInt 1, PStr ''a'']"
        "[PInt 1, PStr ''a'']"] r
    by (simp add: ustr_def)
  moreover have "cast_property (PSet [PInt 1, PInt 2]) = Inr (PList [PInt 1, PInt 2])"
    using cast_property_collection [of "PSet [PInt 1, PInt 2]" "[PInt 1, PInt 2]" "[PInt 1, PInt 2]"] r
    by simp
  ultimately show ?thesis by blast
qed

section \<open>Properties of dictionaries and of PropertySet\<close>

lemma map_of_dict_setitem: "map_of (dict_setitem d k v) = (map_of d)(k \<mapsto> v)"
  by (induction d) (auto simp: fun_eq_iff)

lemma keys_dict_setitem:
  "map fst (dict_setitem d k v) = (if k \<in> set (map fst d) then map fst d else map fst d @ [k])"
  by (induction d) (force simp: image_iff)+

lemma distinct_dict_setitem:
  "distinct (map fst d) \<Longrightarrow> distinct (map fst (dict_setitem d k v))"
  by (simp add: keys_dict_setitem)

lemma items_dict_setitem: "set (dict_setitem d k v) \<subseteq> insert (k, v) (set d)"
  by (induction d) (auto split: if_splits)

lemma values_dict_setitem: "snd ` set (dict_setitem d k v) \<subseteq> insert v (snd ` set d)"
  using items_dict_setitem [of d k v] by force

lemma filter_dict_setitem_other:
  "a \<noteq> k \<Longrightarrow> filter (\<lambda>item. fst item \<noteq> a) (dict_setitem d k v) =
     dict_setitem (filter (\<lambda>item. fst item \<noteq> a) d) k v"
  by (induction d) auto

lemma filter_dict_setitem_same:
  "filter (\<lambda>item. fst item \<noteq> k) (dict_setitem d k v) = filter (\<lambda>item. fst item \<noteq> k) d"
  by (induction d) auto

lemma filter_absent: "\<not> dict_contains d k \<Longrightarrow> filter (\<lambda>item. fst item \<noteq> k) d = d"
  by (induction d) (auto simp: dict_contains_def split: if_splits)

lemma dict_contains_filter: "\<not> dict_contains (filter (\<lambda>item. fst item \<noteq> k) d) k"
  by (induction d) (auto simp: dict_contains_def)

lemma map_of_filter_other:
  "k' \<noteq> k \<Longrightarrow> map_of (filter (\<lambda>item. fst item \<noteq> k) d) k' = map_of d k'"
  by (induction d) auto

subsection \<open>Assignment\<close>

lemma setitem_None: "PropertySet_setitem self key PNone = (Inr (), filter (\<lambda>item. fst item \<noteq> key) self)"
  by (simp add: PropertySet_setitem_def dict_delitem_def filter_absent)

lemma cast_property_not_None: "cast_property v \<noteq> Inr PNone"
  using cast_result_type [of v PNone] by auto

lemma setitem_cases:
  assumes "PropertySet_setitem self key val = (r, self')"
  shows "(val = PNone \<and> r = Inr () \<and> self' = filter (\<lambda>item. fst item \<noteq> key) self) \<or>
         (val \<noteq> PNone \<and> (\<exists>e. cast_property val = Inl e \<and> r = Inl e \<and> self' = self)) \<or>
         (val \<noteq> PNone \<and> (\<exists>c. cast_property val = Inr c \<and> c \<noteq> PNone \<and> r = Inr () \<and> self' = dict_setitem self key c))"
proof (cases "val = PNone")
  case True
  with assms show ?thesis by (simp add: setitem_None)
next
  case False
  with assms cast_property_not_None [of val] show ?thesis
    by (cases "cast_property val") (auto simp: PropertySet_setitem_def)
qed

lemma stored_ok_filter: "stored_ok d \<Longrightarrow> stored_ok (filter P d)"
  by (auto simp: stored_ok_def distinct_map_filter)

lemma stored_ok_dict_setitem: "stored_ok d \<Longrightarrow> c \<noteq> PNone \<Longrightarrow> stored_ok (dict_setitem d k c)"
  using values_dict_setitem [of d k c] by (auto simp: stored_ok_def distinct_dict_setitem)

lemma stored_ok_setitem:
  "stored_ok self \<Longrightarrow> PropertySet_setitem self key val = (r, self') \<Longrightarrow> stored_ok self'"
  by (auto dest!: setitem_cases simp: stored_ok_filter stored_ok_dict_setitem)

lemma stored_ok_set_items:
  "stored_ok self \<Longrightarrow> set_items self items = (r, self') \<Longrightarrow> stored_ok self'"
proof (induction items arbitrary: self)
  case Nil
  then show ?case by simp
next
  case (Cons item items)
  obtain key val where item: "item = (key, val)" by (cases item)
  obtain r1 s1 where s1: "PropertySet_setitem self key val = (r1, s1)"
    by (cases "PropertySet_setitem self key val")
  with Cons.prems(1) have ok: "stored_ok s1" by (rule stored_ok_setitem)
  show ?case
  proof (cases r1)
    case (Inl e)
    with Cons.prems(2) item s1 ok show ?thesis by simp
  next
    case (Inr u)
    with Cons.prems(2) item s1 have "set_items s1 items = (r, self')" by simp
    with ok show ?thesis by (rule Cons.IH)
  qed
qed

lemma stored_ok_empty: "stored_ok []"
  by (simp add: stored_ok_def)

lemma stored_ok_setdefault:
  "stored_ok self \<Longrightarrow> PropertySet_setdefault self key dflt = (r, self') \<Longrightarrow> stored_ok self'"
  by (auto simp: PropertySet_setdefault_def dict_setdefault_def stored_ok_dict_setitem
      split: if_splits option.splits)

lemma reachable_stored_ok: "reachable self \<Longrightarrow> stored_ok self"
proof (induction rule: reachable.induct)
  case reachable_new
  show ?case by (rule stored_ok_empty)
next
  case (reachable_setitem self key val r self')
  then show ?case by (blast intro: stored_ok_setitem)
next
  case (reachable_update self iterable kwargs r self')
  then show ?case unfolding PropertySet_update_def by (blast intro: stored_ok_set_items)
next
  case (reachable_replace self iterable kwargs r self')
  then show ?case unfolding PropertySet_replace_def PropertySet_update_def dict_clear_def
    by (blast intro: stored_ok_set_items stored_ok_empty)
next
  case (reachable_setdefault self key dflt r' self')
  then show ?case by (blast intro: stored_ok_setdefault)
next
  case (reachable_delitem self key self')
  then show ?case by (auto simp: dict_delitem_def stored_ok_filter split: if_splits)
qed

lemma setitem_without_key:
  assumes "PropertySet_setitem self k val = (Inr (), self')"
  shows "if k = key then filter (\<lambda>item. fst item \<noteq> key) self' = filter (\<lambda>item. fst item \<noteq> key) self
         else PropertySet_setitem (filter (\<lambda>item. fst item \<noteq> key) self) k val =
                (Inr (), filter (\<lambda>item. fst item \<noteq> key) self')"
proof -
  from setitem_cases [OF assms] consider
    (del) "val = PNone" "self' = filter (\<lambda>item. fst item \<noteq> k) self"
    | (put) c where "val \<noteq> PNone" "cast_property val = Inr c" "self' = dict_setitem self k c"
    by auto
  then show ?thesis
  proof cases
    case del
    then show ?thesis by (auto simp: setitem_None conj_commute)
  next
    case put
    then show ?thesis
      by (auto simp: PropertySet_setitem_def filter_dict_setitem_same filter_dict_setitem_other)
  qed
qed

lemma set_items_without_key:
  "set_items self items = (Inr (), self') \<Longrightarrow>
   set_items (filter (\<lambda>item. fst item \<noteq> key) self) (filter (\<lambda>item. fst item \<noteq> key) items) =
     (Inr (), filter (\<lambda>item. fst item \<noteq> key) self')"
proof (induction items arbitrary: self)
  case Nil
  then show ?case by simp
next
  case (Cons item items)
  obtain k val where item: "item = (k, val)" by (cases item)
  obtain r1 s1 where s1: "PropertySet_setitem self k val = (r1, s1)"
    by (cases "PropertySet_setitem self k val")
  with Cons.prems item have r1: "r1 = Inr ()" and rest: "set_items s1 items = (Inr (), self')"
    by (cases r1; simp)+
  from Cons.IH [OF rest] setitem_without_key [of self k val s1 key] s1 r1 item
  show ?case by (auto split: if_splits)
qed

lemma set_items_failure:
  "set_items self items = (Inl e, self') \<Longrightarrow>
   \<exists>before key val after. items = before @ (key, val) # after \<and>
     set_items self before = (Inr (), self') \<and> val \<noteq> PNone \<and> cast_property val = Inl e"
proof (induction items arbitrary: self)
  case Nil
  then show ?case by simp
next
  case (Cons item items)
  obtain k val where item: "item = (k, val)" by (cases item)
  obtain r1 s1 where s1: "PropertySet_setitem self k val = (r1, s1)"
    by (cases "PropertySet_setitem self k val")
  show ?case
  proof (cases r1)
    case (Inl e1)
    with Cons.prems item s1 have "e1 = e" "s1 = self'" by simp_all
    with Inl s1 setitem_cases [OF s1] have "val \<noteq> PNone" "cast_property val = Inl e" "self' = self"
      by auto
    with item show ?thesis
      by (intro exI [of _ "[]"] exI [of _ k] exI [of _ val] exI [of _ items]) simp
  next
    case (Inr u)
    with Cons.prems item s1 have "set_items s1 items = (Inl e, self')" by simp
    from Cons.IH [OF this] obtain before key v after where
      b: "items = before @ (key, v) # after" "set_items s1 before = (Inr (), self')"
        "v \<noteq> PNone" "cast_property v = Inl e"
      by blast
    with item s1 Inr show ?thesis
      by (intro exI [of _ "(k, val) # before"] exI [of _ key] exI [of _ v] exI [of _ after]) simp
  qed
qed


lemma getitem_filter_other:
  "k \<noteq> key \<Longrightarrow> PropertySet_getitem (filter (\<lambda>item. fst item \<noteq> key) self) k = PropertySet_getitem self k"
  by (simp add: PropertySet_getitem_def dict_get_def map_of_filter_other)

lemma stored_ok_lookup:
  assumes "stored_ok self"
  shows "PropertySet_getitem self k = PNone \<longleftrightarrow> \<not> dict_contains self k"
proof (cases "map_of self k")
  case None
  then show ?thesis by (simp add: PropertySet_getitem_def dict_get_def dict_contains_def)
next
  case (Some v)
  then have "(k, v) \<in> set self" by (rule map_of_SomeD)
  then have "v \<in> snd ` set self" by force
  with assms have "v \<noteq> PNone" unfolding stored_ok_def by blast
  with Some show ?thesis by (simp add: PropertySet_getitem_def dict_get_def dict_contains_def)
qed

subsection \<open>Equality of dictionaries\<close>

lemma items_eq_self:
  "(\<And>x q. x \<in> set xs \<Longrightarrow> py_eq same q x x = Some True) \<Longrightarrow> items_eq same p i xs xs = Some True"
  by (induction xs arbitrary: i) auto

lemma nan_free_py_eq: "nan_free v \<Longrightarrow> py_eq same p v v = Some True"
proof (induction v arbitrary: p)
  case (PList xs)
  then show ?case by (simp add: items_eq_self list_all_iff)
next
  case (PTuple xs)
  then show ?case by (simp add: items_eq_self list_all_iff)
qed (simp_all add: scalar_eq_def float_eq_def)

lemma nan_free_rich_eq: "nan_free v \<Longrightarrow> rich_eq same p v v = Some True"
  by (simp add: nan_free_py_eq)

lemma dict_eq_items_found:
  "(\<forall>item\<in>set a. map_of b (fst item) = Some (snd item)) \<Longrightarrow>
   dict_eq_items same a b = Some True \<longleftrightarrow>
     (\<forall>item\<in>set a. rich_eq (same (fst item)) [] (snd item) (snd item) = Some True)"
proof (induction a)
  case Nil
  then show ?case by simp
next
  case (Cons item a)
  obtain k v where item: "item = (k, v)" by (cases item)
  from Cons.prems item have found: "map_of b k = Some v" by simp
  from Cons have IH: "dict_eq_items same a b = Some True \<longleftrightarrow>
     (\<forall>item\<in>set a. rich_eq (same (fst item)) [] (snd item) (snd item) = Some True)"
    by (simp del: rich_eq.simps)
  show ?case
  proof (cases "rich_eq (same k) [] v v = Some True")
    case True
    with item found IH show ?thesis by (simp del: rich_eq.simps)
  next
    case False
    with item found show ?thesis
      by (cases "rich_eq (same k) [] v v") (auto simp del: rich_eq.simps)
  qed
qed

lemma dict_eq_self:
  assumes "distinct (map fst a)"
  shows "dict_eq same a a = Some True \<longleftrightarrow>
     (\<forall>item\<in>set a. rich_eq (same (fst item)) [] (snd item) (snd item) = Some True)"
proof -
  from assms have "\<forall>item\<in>set a. map_of a (fst item) = Some (snd item)" by simp
  then show ?thesis by (simp add: dict_eq_def dict_eq_items_found del: rich_eq.simps)
qed


subsection \<open>Histories\<close>

lemma foldl_setitem_filter:
  "foldl (\<lambda>d (k, v). dict_setitem d k v) (filter (\<lambda>item. fst item \<noteq> key) d)
     (filter (\<lambda>item. fst item \<noteq> key) pairs) =
   filter (\<lambda>item. fst item \<noteq> key) (foldl (\<lambda>d (k, v). dict_setitem d k v) d pairs)"
proof (induction pairs arbitrary: d)
  case Nil
  then show ?case by simp
next
  case (Cons pair pairs)
  obtain k v where pair: "pair = (k, v)" by (cases pair)
  show ?case
  proof (cases "k = key")
    case True
    with pair Cons.IH [of "dict_setitem d k v"] show ?thesis
      by (simp add: filter_dict_setitem_same)
  next
    case False
    with pair Cons.IH [of "dict_setitem d k v"] show ?thesis
      by (simp add: filter_dict_setitem_other)
  qed
qed

lemma dict_ctor_filter:
  "dict_ctor (filter (\<lambda>item. fst item \<noteq> key) iterable) (filter (\<lambda>item. fst item \<noteq> key) kwargs) =
   filter (\<lambda>item. fst item \<noteq> key) (dict_ctor iterable kwargs)"
  using foldl_setitem_filter [of key "[]" "iterable @ kwargs"] by (simp add: dict_ctor_def)

lemma entries_filter:
  "dict_ctor (case map_option (filter (\<lambda>item. fst item \<noteq> key)) iterable of
                None \<Rightarrow> [] | Some pairs \<Rightarrow> pairs) (filter (\<lambda>item. fst item \<noteq> key) kwargs) =
   filter (\<lambda>item. fst item \<noteq> key)
     (dict_ctor (case iterable of None \<Rightarrow> [] | Some pairs \<Rightarrow> pairs) kwargs)"
  using dict_ctor_filter [of key "case iterable of None \<Rightarrow> [] | Some pairs \<Rightarrow> pairs" kwargs]
  by (cases iterable) simp_all

lemma dict_contains_filter_other:
  "k \<noteq> key \<Longrightarrow> dict_contains (filter (\<lambda>item. fst item \<noteq> key) d) k = dict_contains d k"
  by (simp add: dict_contains_def map_of_filter_other)

lemma run_op_without_key:
  assumes "run_op self c = Some self'"
  shows "run (filter (\<lambda>item. fst item \<noteq> key) self) (without_key key [c]) =
    Some (filter (\<lambda>item. fst item \<noteq> key) self')"
proof (cases c)
  case (SetItem k v)
  with assms have "PropertySet_setitem self k v = (Inr (), self')"
    by (auto split: prod.splits sum.splits)
  from setitem_without_key [OF this, of key] SetItem show ?thesis
    by (auto split: if_splits)
next
  case (Update iterable kwargs)
  with assms have "set_items self
      (dict_ctor (case iterable of None \<Rightarrow> [] | Some pairs \<Rightarrow> pairs) kwargs) = (Inr (), self')"
    by (auto simp: PropertySet_update_def split: prod.splits sum.splits)
  then have "PropertySet_update (filter (\<lambda>item. fst item \<noteq> key) self)
      (map_option (filter (\<lambda>item. fst item \<noteq> key)) iterable)
      (filter (\<lambda>item. fst item \<noteq> key) kwargs) =
      (Inr (), filter (\<lambda>item. fst item \<noteq> key) self')"
    unfolding PropertySet_update_def entries_filter by (rule set_items_without_key)
  with Update show ?thesis by simp
next
  case (Replace iterable kwargs)
  with assms have "set_items []
      (dict_ctor (case iterable of None \<Rightarrow> [] | Some pairs \<Rightarrow> pairs) kwargs) = (Inr (), self')"
    by (auto simp: PropertySet_replace_def PropertySet_update_def dict_clear_def
        split: prod.splits sum.splits)
  from set_items_without_key [OF this, of key]
  have "PropertySet_replace (filter (\<lambda>item. fst item \<noteq> key) self)
      (map_option (filter (\<lambda>item. fst item \<noteq> key)) iterable)
      (filter (\<lambda>item. fst item \<noteq> key) kwargs) =
      (Inr (), filter (\<lambda>item. fst item \<noteq> key) self')"
    unfolding PropertySet_replace_def PropertySet_update_def dict_clear_def entries_filter
    by simp
  with Replace show ?thesis by simp
next
  case (SetDefault k d)
  show ?thesis
  proof (cases "k = key")
    case True
    with assms SetDefault show ?thesis
      by (auto simp: PropertySet_setdefault_def dict_setdefault_def filter_dict_setitem_same
          split: if_splits option.splits)
  next
    case False
    with assms SetDefault show ?thesis
      by (auto simp: PropertySet_setdefault_def dict_setdefault_def filter_dict_setitem_other
          dict_contains_filter_other PropertySet_getitem_def dict_get_def map_of_filter_other
          dict_contains_def
          split: if_splits option.splits)
  qed
next
  case (DelItem k)
  show ?thesis
  proof (cases "k = key")
    case True
    with assms DelItem show ?thesis
      by (auto simp: dict_delitem_def split: if_splits)
  next
    case False
    with assms DelItem show ?thesis
      by (auto simp: dict_delitem_def dict_contains_filter_other conj_commute
          split: if_splits)
  qed
qed

lemma without_key_Cons: "without_key key (c # cs) = without_key key [c] @ without_key key cs"
  by (cases c) simp_all

lemma run_append:
  "run self (cs @ ds) = (case run self cs of None \<Rightarrow> None | Some self' \<Rightarrow> run self' ds)"
  by (induction cs arbitrary: self) (auto split: option.splits)

lemma run_without_key:
  "run self cs = Some self' \<Longrightarrow>
   run (filter (\<lambda>item. fst item \<noteq> key) self) (without_key key cs) =
     Some (filter (\<lambda>item. fst item \<noteq> key) self')"
proof (induction cs arbitrary: self)
  case Nil
  then show ?case by simp
next
  case (Cons c cs)
  from Cons.prems obtain s1 where s1: "run_op self c = Some s1" "run s1 cs = Some self'"
    by (auto split: option.splits)
  from run_op_without_key [OF s1(1), of key] Cons.IH [OF s1(2)]
  show ?case
    by (subst without_key_Cons) (simp add: run_append)
qed

lemma run_set_items:
  "set_items self items = (Inr (), self') \<Longrightarrow>
   run self (map (\<lambda>item. SetItem (fst item) (snd item)) items) = Some self'"
proof (induction items arbitrary: self)
  case Nil
  then show ?case by simp
next
  case (Cons item items)
  obtain k v where item: "item = (k, v)" by (cases item)
  obtain r1 s1 where s1: "PropertySet_setitem self k v = (r1, s1)"
    by (cases "PropertySet_setitem self k v")
  with Cons.prems item have r1: "r1 = Inr ()" and rest: "set_items s1 items = (Inr (), self')"
    by (cases r1; simp)+
  from Cons.IH [OF rest] s1 r1 item show ?case by simp
qed

lemma reachable_run: "reachable self \<Longrightarrow> \<exists>cs. run [] cs = Some self"
proof (induction rule: reachable.induct)
  case reachable_new
  have "run [] [] = Some []" by simp
  then show ?case by blast
next
  case (reachable_setitem self key val r self')
  then obtain cs where cs: "run [] cs = Some self" by blast
  show ?case
  proof (cases r)
    case (Inl e)
    with reachable_setitem(2) setitem_cases [OF reachable_setitem(2)] have "self' = self" by auto
    with cs show ?thesis by blast
  next
    case (Inr u)
    with reachable_setitem(2) cs have "run [] (cs @ [SetItem key val]) = Some self'"
      by (simp add: run_append)
    then show ?thesis by blast
  qed
next
  case (reachable_update self iterable kwargs r self')
  then obtain cs where cs: "run [] cs = Some self" by blast
  show ?case
  proof (cases r)
    case (Inl e)
    with reachable_update(2) have "set_items self
        (dict_ctor (case iterable of None \<Rightarrow> [] | Some pairs \<Rightarrow> pairs) kwargs) = (Inl e, self')"
      by (simp add: PropertySet_update_def)
    from set_items_failure [OF this] obtain before where
      "set_items self before = (Inr (), self')" by blast
    from run_set_items [OF this] cs
    have "run [] (cs @ map (\<lambda>item. SetItem (fst item) (snd item)) before) = Some self'"
      by (simp add: run_append)
    then show ?thesis by blast
  next
    case (Inr u)
    with reachable_update(2) cs have "run [] (cs @ [Update iterable kwargs]) = Some self'"
      by (simp add: run_append)
    then show ?thesis by blast
  qed
next
  case (reachable_replace self iterable kwargs r self')
  then obtain cs where cs: "run [] cs = Some self" by blast
  show ?case
  proof (cases r)
    case (Inl e)
    with reachable_replace(2) have "set_items []
        (dict_ctor (case iterable of None \<Rightarrow> [] | Some pairs \<Rightarrow> pairs) kwargs) = (Inl e, self')"
      by (simp add: PropertySet_replace_def PropertySet_update_def dict_clear_def)
    from set_items_failure [OF this] obtain before where
      "set_items [] before = (Inr (), self')" by blast
    from run_set_items [OF this]
    have "run [] (map (\<lambda>item. SetItem (fst item) (snd item)) before) = Some self'" .
    then show ?thesis by blast
  next
    case (Inr u)
    with reachable_replace(2) cs have "run [] (cs @ [Replace iterable kwargs]) = Some self'"
      by (simp add: run_append)
    then show ?thesis by blast
  qed
next
  case (reachable_setdefault self key dflt r' self')
  then obtain cs where cs: "run [] cs = Some self" by blast
  from reachable_setdefault(2) obtain v where "r' = Inr v"
    by (auto simp: PropertySet_setdefault_def split: if_splits prod.splits)
  with reachable_setdefault(2) cs have "run [] (cs @ [SetDefault key dflt]) = Some self'"
    by (simp add: run_append)
  then show ?case by blast
next
  case (reachable_delitem self key self')
  then obtain cs where cs: "run [] cs = Some self" by blast
  with reachable_delitem(2) have "run [] (cs @ [DelItem key]) = Some self'"
    by (simp add: run_append)
  then show ?case by blast
qed

lemma run_reachable: "reachable self \<Longrightarrow> run self cs = Some self' \<Longrightarrow> reachable self'"
proof (induction cs arbitrary: self)
  case Nil
  then show ?case by simp
next
  case (Cons c cs)
  from Cons.prems(2) obtain s1 where s1: "run_op self c = Some s1" "run s1 cs = Some self'"
    by (auto split: option.splits)
  from s1(1) Cons.prems(1) have "reachable s1"
    by (cases c)
      (auto split: prod.splits sum.splits
        intro: reachable_setitem reachable_update reachable_replace reachable_setdefault
          reachable_delitem)
  from Cons.IH [OF this s1(2)] show ?case .
qed


subsection \<open>Removal by assigning None\<close>

text \<open>
  Claim C7, as stated, fails in its equality. Built by assigning 1 to \<open>a\<close> and the
  Decimal NaN to \<open>b\<close>, the \<^verbatim>\<open>PropertySet\<close> holds a NaN float under \<open>b\<close>; so does the
  one built without the assignment to \<open>a\<close>. Each build casts the Decimal with
  \<^verbatim>\<open>float(value)\<close>, which makes a float object of its own, so the two share no
  object, and after \<open>a\<close> has been removed from the first by assigning \<^verbatim>\<open>None\<close> the two
  are not equal: a NaN equals no float but the very same object.
\<close>

theorem PropertySet_eq_nan_counterexample:
  "run [] [SetItem ''a'' (PInt 1), SetItem ''b'' (PDecimal (Decimal 0x7FF8000000000000))] =
     Some [(''a'', PInt 1), (''b'', PFloat 0x7FF8000000000000)] \<and>
   PropertySet_setitem [(''a'', PInt 1), (''b'', PFloat 0x7FF8000000000000)] ''a'' PNone =
     (Inr (), [(''b'', PFloat 0x7FF8000000000000)]) \<and>
   run [] (without_key ''a''
     [SetItem ''a'' (PInt 1), SetItem ''b'' (PDecimal (Decimal 0x7FF8000000000000))]) =
     Some [(''b'', PFloat 0x7FF8000000000000)] \<and>
   PropertySet_eq no_sharing [(''b'', PFloat 0x7FF8000000000000)]
     (IsPropertySet [(''b'', PFloat 0x7FF8000000000000)]) = Inr (Some False)"
  by (simp add: PropertySet_setitem_def dict_delitem_def dict_contains_def
      JAVA_INTEGER_MIN_VALUE_def JAVA_INTEGER_MAX_VALUE_def PropertySet_eq_def dict_eq_def
      no_sharing_def scalar_eq_def float_eq_def is_nan_def float_exponent_def float_fraction_def)

text \<open>
  Claim C7, amended. Assigning \<^verbatim>\<open>None\<close> to a key never raises, whether the key is
  present or not. Afterwards the key is not contained and every other key reads as
  before. For every history of calls that returned and led to the \<^verbatim>\<open>PropertySet\<close>,
  the same history with nothing done to the key leads to a \<^verbatim>\<open>PropertySet\<close> with the
  same items in the same order; \<^verbatim>\<open>==\<close> between the two answers True exactly when
  every remaining value is equal to itself as a member, which holds whenever the
  remaining values are of the modelled classes and hold no NaN, and for a value that
  the two share as one object. In every state a \<^verbatim>\<open>PropertySet\<close> can reach, no key is
  mapped to \<^verbatim>\<open>None\<close>: reading a key gives \<^verbatim>\<open>None\<close> exactly when the key is not
  contained; and every such state has a history of calls that returned.
\<close>

theorem PropertySet_setitem_None_removes:
  "(\<exists>self'. PropertySet_setitem self key PNone = (Inr (), self') \<and>
      \<not> dict_contains self' key \<and>
      (\<forall>k. k \<noteq> key \<longrightarrow> PropertySet_getitem self' k = PropertySet_getitem self k) \<and>
      (\<forall>cs. run [] cs = Some self \<longrightarrow>
         (\<exists>never. run [] (without_key key cs) = Some never \<and> never = self' \<and>
            (\<forall>same. PropertySet_eq same self' (IsPropertySet never) = Inr (Some True) \<longleftrightarrow>
               (\<forall>item\<in>set self'.
                  rich_eq (same (fst item)) [] (snd item) (snd item) = Some True)) \<and>
            ((\<forall>item\<in>set self'. nan_free (snd item)) \<longrightarrow>
               (\<forall>same. PropertySet_eq same self' (IsPropertySet never) = Inr (Some True)))))) \<and>
   (reachable self \<longrightarrow>
      PNone \<notin> snd ` set self \<and>
      (\<forall>k. PropertySet_getitem self k = PNone \<longleftrightarrow> \<not> dict_contains self k) \<and>
      (\<exists>cs. run [] cs = Some self))"
proof -
  let ?self' = "filter (\<lambda>item. fst item \<noteq> key) self"
  have removed: "PropertySet_setitem self key PNone = (Inr (), ?self')" by (rule setitem_None)
  have gone: "\<not> dict_contains ?self' key" by (rule dict_contains_filter)
  have others: "\<forall>k. k \<noteq> key \<longrightarrow> PropertySet_getitem ?self' k = PropertySet_getitem self k"
    by (simp add: getitem_filter_other)
  have never: "\<exists>never. run [] (without_key key cs) = Some never \<and> never = ?self' \<and>
      (\<forall>same. PropertySet_eq same ?self' (IsPropertySet never) = Inr (Some True) \<longleftrightarrow>
         (\<forall>item\<in>set ?self'. rich_eq (same (fst item)) [] (snd item) (snd item) = Some True)) \<and>
      ((\<forall>item\<in>set ?self'. nan_free (snd item)) \<longrightarrow>
         (\<forall>same. PropertySet_eq same ?self' (IsPropertySet never) = Inr (Some True)))"
    if built: "run [] cs = Some self" for cs
  proof -
    from run_without_key [OF built, of key]
    have r: "run [] (without_key key cs) = Some ?self'" by simp
    from run_reachable [OF reachable_new built] have "stored_ok self"
      by (rule reachable_stored_ok)
    then have "distinct (map fst ?self')" by (simp add: stored_ok_def distinct_map_filter)
    then have eq: "PropertySet_eq same ?self' (IsPropertySet ?self') = Inr (Some True) \<longleftrightarrow>
        (\<forall>item\<in>set ?self'. rich_eq (same (fst item)) [] (snd item) (snd item) = Some True)"
      for same
      by (simp add: PropertySet_eq_def dict_eq_self del: rich_eq.simps)
    have "PropertySet_eq same ?self' (IsPropertySet ?self') = Inr (Some True)"
      if "\<forall>item\<in>set ?self'. nan_free (snd item)" for same
      unfolding eq using that by (simp add: nan_free_rich_eq del: rich_eq.simps)
    with r eq show ?thesis by blast
  qed
  have inv: "PNone \<notin> snd ` set self \<and>
      (\<forall>k. PropertySet_getitem self k = PNone \<longleftrightarrow> \<not> dict_contains self k) \<and>
      (\<exists>cs. run [] cs = Some self)"
    if reach: "reachable self"
  proof -
    from reach have ok: "stored_ok self" by (rule reachable_stored_ok)
    then have "PNone \<notin> snd ` set self" by (simp add: stored_ok_def)
    moreover have "\<forall>k. PropertySet_getitem self k = PNone \<longleftrightarrow> \<not> dict_contains self k"
      using stored_ok_lookup [OF ok] by blast
    moreover from reach have "\<exists>cs. run [] cs = Some self" by (rule reachable_run)
    ultimately show ?thesis by blast
  qed
  from removed gone others never inv show ?thesis by blast
qed

theorem PropertySet_setitem_None_removes_witness:
  "reachable [(''a'', PInt 1), (''b'', PInt 2)] \<and>
   run [] [SetItem ''a'' (PInt 1), SetDefault ''b'' (PInt 2)] =
     Some [(''a'', PInt 1), (''b'', PInt 2)] \<and>
   PropertySet_setitem [(''a'', PInt 1), (''b'', PInt 2)] ''a'' PNone = (Inr (), [(''b'', PInt 2)]) \<and>
   \<not> dict_contains [(''b'', PInt 2)] ''a'' \<and>
   run [] (without_key ''a'' [SetItem ''a'' (PInt 1), SetDefault ''b'' (PInt 2)]) =
     Some [(''b'', PInt 2)] \<and>
   PropertySet_eq no_sharing [(''b'', PInt 2)] (IsPropertySet [(''b'', PInt 2)]) = Inr (Some True) \<and>
   PNone \<notin> snd ` set [(''a'', PInt 1), (''b'', PInt 2)]"
proof -
  let ?ab = "[(''a'', PInt 1), (''b'', PInt 2)]"
  let ?b = "[(''b'', PInt 2)]"
  let ?cs = "[SetItem ''a'' (PInt 1), SetDefault ''b'' (PInt 2)]"
  have r: "JAVA_INTEGER_MIN_VALUE \<le> 1" "1 \<le> JAVA_INTEGER_MAX_VALUE"
    by (simp_all add: JAVA_INTEGER_MIN_VALUE_def JAVA_INTEGER_MAX_VALUE_def)
  have built: "run [] ?cs = Some ?ab"
    using r by (simp add: PropertySet_setitem_def PropertySet_setdefault_def dict_setdefault_def
        dict_contains_def)
  with reachable_new have reach: "reachable ?ab" by (rule run_reachable)
  have del: "PropertySet_setitem ?ab ''a'' PNone = (Inr (), ?b)"
    by (simp add: PropertySet_setitem_def dict_delitem_def dict_contains_def)
  from PropertySet_setitem_None_removes [of ?ab "''a''", THEN conjunct1]
  obtain self' where s:
    "PropertySet_setitem ?ab ''a'' PNone = (Inr (), self')"
    "\<not> dict_contains self' ''a''"
    "\<forall>cs. run [] cs = Some ?ab \<longrightarrow>
      (\<exists>never. run [] (without_key ''a'' cs) = Some never \<and> never = self' \<and>
         (\<forall>same. PropertySet_eq same self' (IsPropertySet never) = Inr (Some True) \<longleftrightarrow>
            (\<forall>item\<in>set self'. rich_eq (same (fst item)) [] (snd item) (snd item) = Some True)) \<and>
         ((\<forall>item\<in>set self'. nan_free (snd item)) \<longrightarrow>
            (\<forall>same. PropertySet_eq same self' (IsPropertySet never) = Inr (Some True))))"
    by (elim exE conjE) (rule that; assumption)
  from PropertySet_setitem_None_removes [of ?ab "''a''", THEN conjunct2] reach
  have inv: "PNone \<notin> snd ` set ?ab" by (elim impE conjE) assumption+
  from s(1) del have self': "self' = ?b" by simp
  from s(3) built have "\<exists>never. run [] (without_key ''a'' ?cs) = Some never \<and> never = self' \<and>
      (\<forall>same. PropertySet_eq same self' (IsPropertySet never) = Inr (Some True) \<longleftrightarrow>
         (\<forall>item\<in>set self'. rich_eq (same (fst item)) [] (snd item) (snd item) = Some True)) \<and>
      ((\<forall>item\<in>set self'. nan_free (snd item)) \<longrightarrow>
         (\<forall>same. PropertySet_eq same self' (IsPropertySet never) = Inr (Some True)))"
    by (elim allE impE) assumption+
  then obtain never where n:
    "run [] (without_key ''a'' ?cs) = Some never" "never = self'"
    "(\<forall>item\<in>set self'. nan_free (snd item)) \<longrightarrow>
       (\<forall>same. PropertySet_eq same self' (IsPropertySet never) = Inr (Some True))"
    by (elim exE conjE) (rule that; assumption)
  from n(3) self' n(2) have "\<forall>same. PropertySet_eq same ?b (IsPropertySet ?b) = Inr (Some True)"
    by simp
  then have "PropertySet_eq no_sharing ?b (IsPropertySet ?b) = Inr (Some True)" ..
  with n(1,2) self' s(2) inv built reach del show ?thesis by simp
qed

subsection \<open>Failure during assignment\<close>

text \<open>
  Claim C5, as stated, fails for \<^verbatim>\<open>update\<close> and \<^verbatim>\<open>replace\<close>: when the second of
  two entries does not cast, \<^verbatim>\<open>update\<close> raises after the first entry has been stored,
  and \<^verbatim>\<open>replace\<close> raises after the old content has been cleared and the first entry
  stored. Neither leaves the \<^verbatim>\<open>PropertySet\<close> as it was.
\<close>

theorem PropertySet_update_partial_counterexample:
  "PropertySet_update [(''z'', PInt 0)] (Some [(''a'', PInt 1), (''b'', PObject)]) [] =
     (Inl (InvalidPropertyType TObject), [(''z'', PInt 0), (''a'', PInt 1)]) \<and>
   PropertySet_replace [(''z'', PInt 0)] (Some [(''a'', PInt 1), (''b'', PObject)]) [] =
     (Inl (InvalidPropertyType TObject), [(''a'', PInt 1)]) \<and>
   [(''z'', PInt 0), (''a'', PInt 1)] \<noteq> [(''z'', PInt 0)] \<and>
   [(''a'', PInt 1)] \<noteq> [(''z'', PInt 0)]"
  by (simp add: PropertySet_update_def PropertySet_replace_def dict_clear_def dict_ctor_def
      PropertySet_setitem_def JAVA_INTEGER_MIN_VALUE_def JAVA_INTEGER_MAX_VALUE_def)

lemma setitem_success:
  "PropertySet_setitem self key val = (Inr (), self') \<longleftrightarrow>
     (val = PNone \<or> (\<exists>c. cast_property val = Inr c)) \<and>
     self' = (if val = PNone then filter (\<lambda>item. fst item \<noteq> key) self
              else dict_setitem self key (projr (cast_property val)))"
proof (cases "val = PNone")
  case True
  then show ?thesis by (auto simp: setitem_None)
next
  case False
  then show ?thesis
    by (cases "cast_property val") (auto simp: PropertySet_setitem_def)
qed

lemma set_items_success:
  "set_items self items = (Inr (), self') \<longleftrightarrow>
     (\<forall>entry\<in>set items. snd entry = PNone \<or> (\<exists>c. cast_property (snd entry) = Inr c)) \<and>
     self' = foldl (\<lambda>s entry.
               if snd entry = PNone then filter (\<lambda>item. fst item \<noteq> fst entry) s
               else dict_setitem s (fst entry) (projr (cast_property (snd entry)))) self items"
proof (induction items arbitrary: self)
  case Nil
  then show ?case by auto
next
  case (Cons entry items)
  obtain k v where entry: "entry = (k, v)" by (cases entry)
  obtain r1 s1 where s1: "PropertySet_setitem self k v = (r1, s1)"
    by (cases "PropertySet_setitem self k v")
  show ?case
  proof (cases r1)
    case (Inl e)
    with s1 setitem_cases [OF s1] have "v \<noteq> PNone" "cast_property v = Inl e" by auto
    with Inl s1 entry show ?thesis by simp
  next
    case (Inr u)
    with s1 have ok: "PropertySet_setitem self k v = (Inr (), s1)" by simp
    from ok [unfolded setitem_success] Cons.IH [of s1] ok entry show ?thesis by simp
  qed
qed

text \<open>
  Claim C5, amended. The assignment of one property either succeeds, storing the key
  with the canonical value (or removing the key when the value is \<^verbatim>\<open>None\<close>), or
  raises the error of the caster and leaves the \<^verbatim>\<open>PropertySet\<close> unchanged.
  \<^verbatim>\<open>update\<close> and \<^verbatim>\<open>replace\<close> assign their entries in order, \<^verbatim>\<open>update\<close> to the
  state it was called on and \<^verbatim>\<open>replace\<close> to the empty state. They return exactly when
  every entry is \<^verbatim>\<open>None\<close> or casts, and then every entry has been assigned. They
  raise at the first entry that does not cast, and then the entries before that one
  have been assigned and stay.
\<close>

theorem PropertySet_assignment_failure:
  "let entries = dict_ctor (case iterable of None \<Rightarrow> [] | Some pairs \<Rightarrow> pairs) kwargs;
       castable = (\<lambda>entry. snd entry = PNone \<or> (\<exists>c. cast_property (snd entry) = Inr c));
       assign = (\<lambda>s entry.
          if snd entry = PNone then filter (\<lambda>item. fst item \<noteq> fst entry) s
          else dict_setitem s (fst entry) (projr (cast_property (snd entry))))
   in
   (PropertySet_setitem self key val = (Inl e, self') \<longrightarrow>
      self' = self \<and> cast_property val = Inl e) \<and>
   (PropertySet_setitem self key val = (Inr (), self') \<longrightarrow>
      (if val = PNone then self' = filter (\<lambda>item. fst item \<noteq> key) self
       else \<exists>c. cast_property val = Inr c \<and> self' = dict_setitem self key c)) \<and>
   (PropertySet_update self iterable kwargs = (Inl e, self') \<longrightarrow>
      (\<exists>before k v after.
         entries = before @ (k, v) # after \<and>
         set_items self before = (Inr (), self') \<and> cast_property v = Inl e \<and>
         v \<noteq> PNone \<and> (\<forall>entry\<in>set before. castable entry) \<and>
         self' = foldl assign self before)) \<and>
   (PropertySet_replace self iterable kwargs = (Inl e, self') \<longrightarrow>
      (\<exists>before k v after.
         entries = before @ (k, v) # after \<and>
         set_items [] before = (Inr (), self') \<and> cast_property v = Inl e \<and>
         v \<noteq> PNone \<and> (\<forall>entry\<in>set before. castable entry) \<and>
         self' = foldl assign [] before)) \<and>
   (PropertySet_update self iterable kwargs = (Inr (), self') \<longleftrightarrow>
      (\<forall>entry\<in>set entries. castable entry) \<and> self' = foldl assign self entries) \<and>
   (PropertySet_replace self iterable kwargs = (Inr (), self') \<longleftrightarrow>
      (\<forall>entry\<in>set entries. castable entry) \<and> self' = foldl assign [] entries)"
proof -
  let ?entries = "dict_ctor (case iterable of None \<Rightarrow> [] | Some pairs \<Rightarrow> pairs) kwargs"
  let ?castable = "\<lambda>entry. snd entry = PNone \<or> (\<exists>c. cast_property (snd entry) = Inr c)"
  let ?assign = "\<lambda>s entry.
      if snd entry = PNone then filter (\<lambda>item. fst item \<noteq> fst entry) s
      else dict_setitem s (fst entry) (projr (cast_property (snd entry)))"
  have raised: "self' = self \<and> cast_property val = Inl e"
    if "PropertySet_setitem self key val = (Inl e, self')"
    using setitem_cases [OF that] by auto
  have stored: "if val = PNone then self' = filter (\<lambda>item. fst item \<noteq> key) self
      else \<exists>c. cast_property val = Inr c \<and> self' = dict_setitem self key c"
    if "PropertySet_setitem self key val = (Inr (), self')"
    using setitem_cases [OF that] by auto
  have stopped: "\<exists>before k v after. ?entries = before @ (k, v) # after \<and>
      set_items s before = (Inr (), self') \<and> cast_property v = Inl e \<and>
      v \<noteq> PNone \<and> (\<forall>entry\<in>set before. ?castable entry) \<and>
      self' = foldl ?assign s before"
    if "set_items s ?entries = (Inl e, self')" for s
  proof -
    from set_items_failure [OF that] obtain before k v after where
      b: "?entries = before @ (k, v) # after" "set_items s before = (Inr (), self')"
        "v \<noteq> PNone" "cast_property v = Inl e"
      by blast
    from b(2) [unfolded set_items_success] b show ?thesis by blast
  qed
  have updated: "\<exists>before k v after. ?entries = before @ (k, v) # after \<and>
      set_items self before = (Inr (), self') \<and> cast_property v = Inl e \<and>
      v \<noteq> PNone \<and> (\<forall>entry\<in>set before. ?castable entry) \<and>
      self' = foldl ?assign self before"
    if "PropertySet_update self iterable kwargs = (Inl e, self')"
    using that by (intro stopped) (simp add: PropertySet_update_def)
  have replaced: "\<exists>before k v after. ?entries = before @ (k, v) # after \<and>
      set_items [] before = (Inr (), self') \<and> cast_property v = Inl e \<and>
      v \<noteq> PNone \<and> (\<forall>entry\<in>set before. ?castable entry) \<and>
      self' = foldl ?assign [] before"
    if "PropertySet_replace self iterable kwargs = (Inl e, self')"
    using that
    by (intro stopped) (simp add: PropertySet_replace_def PropertySet_update_def dict_clear_def)
  have update_returns: "PropertySet_update self iterable kwargs = (Inr (), self') \<longleftrightarrow>
      (\<forall>entry\<in>set ?entries. ?castable entry) \<and> self' = foldl ?assign self ?entries"
    by (simp only: PropertySet_update_def set_items_success)
  have replace_returns: "PropertySet_replace self iterable kwargs = (Inr (), self') \<longleftrightarrow>
      (\<forall>entry\<in>set ?entries. ?castable entry) \<and> self' = foldl ?assign [] ?entries"
    by (simp only: PropertySet_replace_def PropertySet_update_def dict_clear_def
        set_items_success)
  from raised stored updated replaced update_returns replace_returns
  show ?thesis unfolding Let_def by blast
qed

theorem PropertySet_assignment_failure_witness:
  "PropertySet_setitem [(''z'', PInt 0)] ''a'' (PInt (2 ^ 63)) =
     (Inl (OutOfRange (2 ^ 63)), [(''z'', PInt 0)]) \<and>
   cast_property (PInt (2 ^ 63)) = Inl (OutOfRange (2 ^ 63)) \<and>
   PropertySet_setitem [(''z'', PInt 0)] ''a'' (PInt 1) =
     (Inr (), [(''z'', PInt 0), (''a'', PInt 1)]) \<and>
   (\<exists>c. cast_property (PInt 1) = Inr c \<and>
      [(''z'', PInt 0), (''a'', PInt 1)] = dict_setitem [(''z'', PInt 0)] ''a'' c) \<and>
   PropertySet_update [(''z'', PInt 0)] (Some [(''a'', PInt 1), (''b'', PObject)]) [] =
     (Inl (InvalidPropertyType TObject), [(''z'', PInt 0), (''a'', PInt 1)]) \<and>
   (\<exists>before k v after.
      dict_ctor [(''a'', PInt 1), (''b'', PObject)] [] = before @ (k, v) # after \<and>
      set_items [(''z'', PInt 0)] before = (Inr (), [(''z'', PInt 0), (''a'', PInt 1)]) \<and>
      cast_property v = Inl (InvalidPropertyType TObject)) \<and>
   PropertySet_replace [(''z'', PInt 0)] (Some [(''a'', PInt 1), (''b'', PObject)]) [] =
     (Inl (InvalidPropertyType TObject), [(''a'', PInt 1)]) \<and>
   (\<exists>before k v after.
      dict_ctor [(''a'', PInt 1), (''b'', PObject)] [] = before @ (k, v) # after \<and>
      set_items [] before = (Inr (), [(''a'', PInt 1)]) \<and>
      cast_property v = Inl (InvalidPropertyType TObject))"
proof -
  let ?z = "[(''z'', PInt 0)]"
  let ?ab = "[(''a'', PInt 1), (''b'', PObject)]"
  let ?za = "[(''z'', PInt 0), (''a'', PInt 1)]"
  have big: "PropertySet_setitem ?z ''a'' (PInt (2 ^ 63)) = (Inl (OutOfRange (2 ^ 63)), ?z)"
    by (simp add: PropertySet_setitem_def JAVA_INTEGER_MIN_VALUE_def JAVA_INTEGER_MAX_VALUE_def)
  have one: "PropertySet_setitem ?z ''a'' (PInt 1) = (Inr (), [(''z'', PInt 0), (''a'', PInt 1)])"
    by (simp add: PropertySet_setitem_def JAVA_INTEGER_MIN_VALUE_def JAVA_INTEGER_MAX_VALUE_def)
  have upd: "PropertySet_update ?z (Some ?ab) [] =
      (Inl (InvalidPropertyType TObject), [(''z'', PInt 0), (''a'', PInt 1)])"
    by (simp add: PropertySet_update_def dict_ctor_def PropertySet_setitem_def
        JAVA_INTEGER_MIN_VALUE_def JAVA_INTEGER_MAX_VALUE_def)
  have rep: "PropertySet_replace ?z (Some ?ab) [] =
      (Inl (InvalidPropertyType TObject), [(''a'', PInt 1)])"
    by (simp add: PropertySet_replace_def PropertySet_update_def dict_clear_def dict_ctor_def
        PropertySet_setitem_def JAVA_INTEGER_MIN_VALUE_def JAVA_INTEGER_MAX_VALUE_def)
  note parts = PropertySet_assignment_failure [unfolded Let_def]
  from parts [where self = ?z and key = "''a''" and val = "PInt (2 ^ 63)"
      and e = "OutOfRange (2 ^ 63)" and self' = ?z, THEN conjunct1, THEN mp, OF big]
  have c1: "cast_property (PInt (2 ^ 63)) = Inl (OutOfRange (2 ^ 63))"
    by (rule conjunct2)
  from parts [where self = ?z and key = "''a''" and val = "PInt 1" and self' = ?za,
      THEN conjunct2, THEN conjunct1, THEN mp, OF one]
  have c2: "\<exists>c. cast_property (PInt 1) = Inr c \<and> ?za = dict_setitem ?z ''a'' c"
    by simp
  have c3: "\<exists>before k v after.
      dict_ctor ?ab [] = before @ (k, v) # after \<and>
      set_items ?z before = (Inr (), ?za) \<and>
      cast_property v = Inl (InvalidPropertyType TObject)"
  proof -
    from parts [where self = ?z and iterable = "Some ?ab" and kwargs = "[]"
        and e = "InvalidPropertyType TObject" and self' = ?za,
        THEN conjunct2, THEN conjunct2, THEN conjunct1, THEN mp, OF upd]
    obtain before k v after where
      "dict_ctor (case Some ?ab of None \<Rightarrow> [] | Some pairs \<Rightarrow> pairs) [] = before @ (k, v) # after"
      "set_items ?z before = (Inr (), ?za)"
      "cast_property v = Inl (InvalidPropertyType TObject)"
      by (elim exE conjE) (rule that; assumption)
    then have "dict_ctor ?ab [] = before @ (k, v) # after \<and>
      set_items ?z before = (Inr (), ?za) \<and>
      cast_property v = Inl (InvalidPropertyType TObject)"
      by simp
    then show ?thesis by (intro exI)
  qed
  have c4: "\<exists>before k v after.
      dict_ctor ?ab [] = before @ (k, v) # after \<and>
      set_items [] before = (Inr (), [(''a'', PInt 1)]) \<and>
      cast_property v = Inl (InvalidPropertyType TObject)"
  proof -
    from parts [where self = ?z and iterable = "Some ?ab" and kwargs = "[]"
        and e = "InvalidPropertyType TObject" and self' = "[(''a'', PInt 1)]",
        THEN conjunct2, THEN conjunct2, THEN conjunct2, THEN conjunct1, THEN mp, OF rep]
    obtain before k v after where
      "dict_ctor (case Some ?ab of None \<Rightarrow> [] | Some pairs \<Rightarrow> pairs) [] = before @ (k, v) # after"
      "set_items [] before = (Inr (), [(''a'', PInt 1)])"
      "cast_property v = Inl (InvalidPropertyType TObject)"
      by (elim exE conjE) (rule that; assumption)
    then have "dict_ctor ?ab [] = before @ (k, v) # after \<and>
      set_items [] before = (Inr (), [(''a'', PInt 1)]) \<and>
      cast_property v = Inl (InvalidPropertyType TObject)"
      by simp
    then show ?thesis by (intro exI)
  qed
  from big c1 one c2 upd c3 rep c4 show ?thesis by (intro conjI)
qed

subsection \<open>setdefault\<close>

text \<open>
  Claim C3, at an input where the code departs from it. On a key that is absent,
  \<^verbatim>\<open>setdefault\<close> with the tuple \<open>(1, 2)\<close> stores and returns the tuple itself, where
  the caster gives the list \<open>[1, 2]\<close>; with the integer \<open>2 ^ 63\<close>, which the caster
  refuses, it stores and returns the integer. A key that is present is answered with
  its value, and the default \<^verbatim>\<open>None\<close> with \<^verbatim>\<open>None\<close> and no change, as the claim
  says.
\<close>

theorem PropertySet_setdefault_stores_uncast:
  "PropertySet_setdefault [] ''k'' (PTuple [PInt 1, PInt 2]) =
     (Inr (PTuple [PInt 1, PInt 2]), [(''k'', PTuple [PInt 1, PInt 2])]) \<and>
   cast_property (PTuple [PInt 1, PInt 2]) = Inr (PList [PInt 1, PInt 2]) \<and>
   PropertySet_setitem [] ''k'' (PTuple [PInt 1, PInt 2]) =
     (Inr (), [(''k'', PList [PInt 1, PInt 2])]) \<and>
   PropertySet_setdefault [] ''k'' (PInt (2 ^ 63)) =
     (Inr (PInt (2 ^ 63)), [(''k'', PInt (2 ^ 63))]) \<and>
   cast_property (PInt (2 ^ 63)) = Inl (OutOfRange (2 ^ 63)) \<and>
   PropertySet_setdefault [(''k'', PInt 5)] ''k'' (PInt 7) = (Inr (PInt 5), [(''k'', PInt 5)]) \<and>
   PropertySet_setdefault [] ''k'' PNone = (Inr PNone, [])"
  by (simp add: PropertySet_setdefault_def dict_setdefault_def dict_contains_def
      PropertySet_getitem_def dict_get_def PropertySet_setitem_def
      JAVA_INTEGER_MIN_VALUE_def JAVA_INTEGER_MAX_VALUE_def isinstance_def issubclass_def)

subsection \<open>Hashing\<close>

text \<open>
  Claim C2, at an input where the code departs from it. The two \<^verbatim>\<open>PropertySet\<close>s
  built from the pairs \<open>a: 1\<close> and \<open>b: 2\<close> in the two orders are equal. Whatever the
  built-in \<^verbatim>\<open>hash\<close> is, \<^verbatim>\<open>__hash__\<close> returns for each of them the last value
  inserted, combined with the hash of the last item alone, so the two results differ
  unless the built-in hash makes them meet; with a hash that is constant they differ.
  A \<^verbatim>\<open>PropertySet\<close> with a string value has no hash at all: \<^verbatim>\<open>__hash__\<close> raises.
\<close>

theorem PropertySet_hash_last_item_only:
  "PropertySet_init (Some [(''a'', PInt 1), (''b'', PInt 2)]) [] =
     (Inr (), [(''a'', PInt 1), (''b'', PInt 2)]) \<and>
   PropertySet_init (Some [(''b'', PInt 2), (''a'', PInt 1)]) [] =
     (Inr (), [(''b'', PInt 2), (''a'', PInt 1)]) \<and>
   PropertySet_eq same [(''a'', PInt 1), (''b'', PInt 2)]
     (IsPropertySet [(''b'', PInt 2), (''a'', PInt 1)]) = Inr (Some True) \<and>
   PropertySet_hash h [(''a'', PInt 1), (''b'', PInt 2)] =
     Inr (PInt (2 XOR h (PTuple [PStr ''b'', PInt 2]))) \<and>
   PropertySet_hash h [(''b'', PInt 2), (''a'', PInt 1)] =
     Inr (PInt (1 XOR h (PTuple [PStr ''a'', PInt 1]))) \<and>
   PropertySet_hash (\<lambda>_. 0) [(''a'', PInt 1), (''b'', PInt 2)] \<noteq>
     PropertySet_hash (\<lambda>_. 0) [(''b'', PInt 2), (''a'', PInt 1)] \<and>
   PropertySet_hash h [(''a'', PStr ''x'')] = Inl UnsupportedOperand"
  by (simp add: PropertySet_init_def PropertySet_update_def dict_ctor_def PropertySet_setitem_def
      JAVA_INTEGER_MIN_VALUE_def JAVA_INTEGER_MAX_VALUE_def PropertySet_eq_def dict_eq_def
      scalar_eq_def
      PropertySet_hash_def)

section \<open>Properties of graph views\<close>

lemma relationship_at_nodes: "relationship_at H rel R \<Longrightarrow> attr_nodes H rel = Inr (set (endpoints R))"
  by (auto simp: relationship_at_def attr_nodes_def split: pyref.splits)

lemma relationship_at_unique: "relationship_at H rel R \<Longrightarrow> relationship_at H rel R' \<Longrightarrow> R' = R"
  by (auto simp: relationship_at_def split: pyref.splits)

lemma union_nodes_relationships:
  assumes "\<forall>rel\<in>rels. \<exists>R. relationship_at H rel R"
  shows "union_nodes H rels = Inr {n. \<exists>rel\<in>rels. \<exists>R. relationship_at H rel R \<and> n \<in> set (endpoints R)}"
proof -
  have ok: "\<not> (\<exists>rel\<in>rels. isl (attr_nodes H rel))"
  proof
    assume "\<exists>rel\<in>rels. isl (attr_nodes H rel)"
    then obtain rel where rel: "rel \<in> rels" "isl (attr_nodes H rel)" by blast
    with assms obtain R where "relationship_at H rel R" by blast
    from relationship_at_nodes [OF this] rel(2) show False by simp
  qed
  have "(\<Union>rel\<in>rels. projr (attr_nodes H rel)) =
      {n. \<exists>rel\<in>rels. \<exists>R. relationship_at H rel R \<and> n \<in> set (endpoints R)}"
  proof (intro set_eqI iffI)
    fix n assume "n \<in> (\<Union>rel\<in>rels. projr (attr_nodes H rel))"
    then obtain rel where rel: "rel \<in> rels" "n \<in> projr (attr_nodes H rel)" by blast
    with assms obtain R where R: "relationship_at H rel R" by blast
    with rel relationship_at_nodes [OF R] show "n \<in> {n. \<exists>rel\<in>rels. \<exists>R. relationship_at H rel R \<and> n \<in> set (endpoints R)}"
      by auto
  next
    fix n assume "n \<in> {n. \<exists>rel\<in>rels. \<exists>R. relationship_at H rel R \<and> n \<in> set (endpoints R)}"
    then obtain rel R where "rel \<in> rels" "relationship_at H rel R" "n \<in> set (endpoints R)" by blast
    then show "n \<in> (\<Union>rel\<in>rels. projr (attr_nodes H rel))"
      using relationship_at_nodes [of H rel R] by force
  qed
  with ok show ?thesis by (simp add: union_nodes_def)
qed

lemma union_nodes_empty: "union_nodes H {} = Inr {}"
  by (simp add: union_nodes_def)

lemma Relationship_init_fields:
  assumes "Relationship_init self args props = Inr R"
  shows "nodes R = set (endpoints R)" "relationships R = {self}"
    "order R = card (set (endpoints R))" "size_view R = 1"
    "endpoints R = (if length args \<le> 1 then [RNone, RNone] else if length args = 2 then args
       else args ! 0 # drop 2 args)"
  using assms
  by (auto simp: Relationship_init_def GraphView_init_def Let_def le_Suc_eq
      split: sum.splits if_splits)

lemma Node_init_fields:
  assumes "Node_init self lbls props = Inr N"
  shows "nodes N = {self}" "relationships N = {}"
  using assms
  by (auto simp: Node_init_def GraphView_init_def Let_def split: sum.splits if_splits)

subsection \<open>Difference and node induction\<close>

text \<open>
  Claim C1. For graph views \<open>A\<close> and \<open>B\<close> whose surviving relationships are
  relationships of the heap, \<open>A - B\<close> is a graph view: its relationships are those of
  \<open>A\<close> that are not in \<open>B\<close>, and its nodes are the nodes of \<open>A\<close> that are not in \<open>B\<close>
  together with every endpoint of every surviving relationship. In particular, for the
  relationship \<open>r\<close> from \<open>a\<close> to \<open>b\<close> and the node \<open>b\<close>, each taken as the graph view
  it is, \<open>r - b\<close> has the nodes \<open>a\<close> and \<open>b\<close> and the relationship \<open>r\<close>.
\<close>

theorem GraphView_sub_induction:
  "((\<forall>rel\<in>relationships A - relationships B. \<exists>R. relationship_at H rel R) \<longrightarrow>
      (\<exists>G. GraphView_sub H A B = Inr G \<and>
         relationships G = relationships A - relationships B \<and>
         nodes G = (nodes A - nodes B) \<union>
           {n. \<exists>rel\<in>relationships A - relationships B. \<exists>R.
                 relationship_at H rel R \<and> n \<in> set (endpoints R)})) \<and>
   (Relationship_init (RObj r) [a, t, b] props = Inr R \<and> H r = Some (RelationshipObj R) \<and>
    Node_init b lbls props' = Inr N \<longrightarrow>
      GraphView_sub H R N = Inr (GraphView_init {a, b} {RObj r}))"
proof (intro conjI impI)
  assume "\<forall>rel\<in>relationships A - relationships B. \<exists>R. relationship_at H rel R"
  from union_nodes_relationships [OF this]
  show "\<exists>G. GraphView_sub H A B = Inr G \<and>
         relationships G = relationships A - relationships B \<and>
         nodes G = (nodes A - nodes B) \<union>
           {n. \<exists>rel\<in>relationships A - relationships B. \<exists>R.
                 relationship_at H rel R \<and> n \<in> set (endpoints R)}"
    by (simp add: GraphView_sub_def EntitySetView_sub_def EntitySetView_or_def GraphView_init_def
        Let_def)
next
  assume asm: "Relationship_init (RObj r) [a, t, b] props = Inr R \<and> H r = Some (RelationshipObj R) \<and>
    Node_init b lbls props' = Inr N"
  then have R: "nodes R = {a, b}" "relationships R = {RObj r}" "endpoints R = [a, b]"
    using Relationship_init_fields [of "RObj r" "[a, t, b]" props R] by auto
  from asm have N: "nodes N = {b}" "relationships N = {}"
    using Node_init_fields [of b lbls props' N] by auto
  from asm R have "attr_nodes H (RObj r) = Inr {a, b}" by (simp add: attr_nodes_def)
  then have "union_nodes H {RObj r} = Inr {a, b}" by (simp add: union_nodes_def)
  moreover have "(nodes R - nodes N) \<union> {a, b} = {a, b}"
    using R N by auto
  ultimately show "GraphView_sub H R N = Inr (GraphView_init {a, b} {RObj r})"
    using R N by (simp add: GraphView_sub_def EntitySetView_sub_def EntitySetView_or_def)
qed

theorem GraphView_sub_induction_witness:
  "Relationship_init (RObj 3) [RObj 1, RStr ''KNOWS'', RObj 2] [] =
     Inr \<lparr>nodes = {RObj 1, RObj 2}, relationships = {RObj 3}, order = 2, size_view = 1,
           properties = [], endpoints = [RObj 1, RObj 2], rel_type = RStr ''KNOWS''\<rparr> \<and>
   Node_init (RObj 2) [] [] =
     Inr \<lparr>nodes = {RObj 2}, relationships = {}, order = 1, size_view = 0,
           properties = [], labels = {}\<rparr> \<and>
   GraphView_sub
     [3 \<mapsto> RelationshipObj
        \<lparr>nodes = {RObj 1, RObj 2}, relationships = {RObj 3}, order = 2, size_view = 1,
         properties = [], endpoints = [RObj 1, RObj 2], rel_type = RStr ''KNOWS''\<rparr>]
     \<lparr>nodes = {RObj 1, RObj 2}, relationships = {RObj 3}, order = 2, size_view = 1,
      properties = [], endpoints = [RObj 1, RObj 2], rel_type = RStr ''KNOWS''\<rparr>
     \<lparr>nodes = {RObj 2}, relationships = {}, order = 1, size_view = 0,
      properties = [], labels = {}\<rparr> =
     Inr \<lparr>nodes = {RObj 1, RObj 2}, relationships = {RObj 3}, order = 2, size_view = 1\<rparr>"
proof -
  let ?R = "\<lparr>nodes = {RObj 1, RObj 2}, relationships = {RObj 3}, order = 2, size_view = 1,
      properties = [], endpoints = [RObj 1, RObj 2], rel_type = RStr ''KNOWS''\<rparr>"
  let ?N = "\<lparr>nodes = {RObj 2}, relationships = {}, order = 1, size_view = 0,
      properties = [], labels = {}\<rparr>"
  let ?H = "[3 \<mapsto> RelationshipObj ?R]"
  have R: "Relationship_init (RObj 3) [RObj 1, RStr ''KNOWS'', RObj 2] [] = Inr ?R"
    by (simp add: Relationship_init_def PropertyContainer_init_def PropertySet_init_def
        PropertySet_update_def dict_ctor_def GraphView_init_def)
  have N: "Node_init (RObj 2) [] [] = Inr ?N"
    by (simp add: Node_init_def PropertyContainer_init_def PropertySet_init_def
        PropertySet_update_def dict_ctor_def GraphView_init_def)
  have at: "\<forall>rel\<in>relationships ?R - relationships ?N. \<exists>R'. relationship_at ?H rel R'"
    by (simp add: relationship_at_def)
  from GraphView_sub_induction [of ?R ?N ?H 3 "RObj 1" "RStr ''KNOWS''" "RObj 2" "[]" ?R "[]" "[]" ?N]
    R N at
  have "GraphView_sub ?H ?R ?N = Inr (GraphView_init {RObj 1, RObj 2} {RObj 3})"
    by simp
  with R N show ?thesis by (simp add: GraphView_init_def)
qed

subsection \<open>Differences without relationships\<close>

text \<open>
  Claim C9. When no relationship of \<open>A\<close> survives in \<open>A - B\<close>, the difference returns,
  without an error, the graph view of the nodes of \<open>A\<close> that are not in \<open>B\<close> and of no
  relationship, whatever the heap holds; when the symmetric difference of the
  relationships is empty, \<open>A ^ B\<close> returns the graph view of the symmetric difference of
  the nodes. The union over no relationship adds no node.
\<close>

theorem GraphView_difference_no_relationships:
  "(relationships A - relationships B = {} \<longrightarrow>
      GraphView_sub H A B = Inr (GraphView_init (nodes A - nodes B) {})) \<and>
   ((relationships A - relationships B) \<union> (relationships B - relationships A) = {} \<longrightarrow>
      GraphView_xor H A B =
        Inr (GraphView_init ((nodes A - nodes B) \<union> (nodes B - nodes A)) {}))"
proof (intro conjI impI)
  assume d: "relationships A - relationships B = {}"
  show "GraphView_sub H A B = Inr (GraphView_init (nodes A - nodes B) {})"
    unfolding GraphView_sub_def EntitySetView_sub_def EntitySetView_or_def Let_def d
    by (simp add: union_nodes_empty)
next
  assume d: "(relationships A - relationships B) \<union> (relationships B - relationships A) = {}"
  show "GraphView_xor H A B =
      Inr (GraphView_init ((nodes A - nodes B) \<union> (nodes B - nodes A)) {})"
    unfolding GraphView_xor_def EntitySetView_xor_def EntitySetView_or_def Let_def d
    by (simp add: union_nodes_empty)
qed

theorem GraphView_difference_no_relationships_witness:
  "GraphView_sub Map.empty (GraphView_init {RObj 1, RObj 2} {RObj 3})
     (GraphView_init {RObj 2} {RObj 3}) =
     Inr \<lparr>nodes = {RObj 1}, relationships = {}, order = 1, size_view = 0\<rparr> \<and>
   GraphView_xor Map.empty (GraphView_init {RObj 1, RObj 2} {RObj 3})
     (GraphView_init {RObj 2} {RObj 3}) =
     Inr \<lparr>nodes = {RObj 1}, relationships = {}, order = 1, size_view = 0\<rparr>"
proof -
  let ?A = "GraphView_init {RObj 1, RObj 2} {RObj 3}"
  let ?B = "GraphView_init {RObj 2} {RObj 3}"
  have d: "relationships ?A - relationships ?B = {}"
    "(relationships ?A - relationships ?B) \<union> (relationships ?B - relationships ?A) = {}"
    by (simp_all add: GraphView_init_def)
  have n: "nodes ?A - nodes ?B = {RObj 1}"
    "(nodes ?A - nodes ?B) \<union> (nodes ?B - nodes ?A) = {RObj 1}"
    by (auto simp: GraphView_init_def)
  from GraphView_difference_no_relationships [of ?A ?B Map.empty] d
  have "GraphView_sub Map.empty ?A ?B = Inr (GraphView_init (nodes ?A - nodes ?B) {})"
    and "GraphView_xor Map.empty ?A ?B =
      Inr (GraphView_init ((nodes ?A - nodes ?B) \<union> (nodes ?B - nodes ?A)) {})"
    by blast+
  then show ?thesis unfolding n by (simp add: GraphView_init_def)
qed

subsection \<open>Relationships without endpoints\<close>

text \<open>
  Claim C10. A relationship constructed with no positional argument, or with one, has
  the endpoints \<open>(None, None)\<close>: the node set of its graph view is the singleton of
  \<^verbatim>\<open>None\<close>, not the empty set, its order is 1, and \<^verbatim>\<open>start\<close> and \<^verbatim>\<open>end\<close> both
  return \<^verbatim>\<open>None\<close>. The construction succeeds whenever the properties cast.
\<close>

theorem Relationship_without_endpoints:
  assumes "length args \<le> 1" and "PropertyContainer_init props = Inr ps"
  shows "\<exists>R. Relationship_init self args props = Inr R \<and>
           endpoints R = [RNone, RNone] \<and> nodes R = {RNone} \<and> nodes R \<noteq> {} \<and> order R = 1 \<and>
           Relationship_start R = Inr RNone \<and> Relationship_end R = Inr RNone"
  using assms
  by (auto simp: Relationship_init_def GraphView_init_def Let_def Relationship_start_def
      Relationship_end_def py_index_def le_Suc_eq)

theorem Relationship_without_endpoints_witness:
  "(\<exists>R. Relationship_init (RObj 1) [] [] = Inr R \<and> endpoints R = [RNone, RNone] \<and>
      nodes R = {RNone} \<and> order R = 1 \<and>
      Relationship_start R = Inr RNone \<and> Relationship_end R = Inr RNone) \<and>
   (\<exists>R. Relationship_init (RObj 1) [RStr ''KNOWS''] [(''since'', PInt 1999)] = Inr R \<and>
      endpoints R = [RNone, RNone] \<and> nodes R = {RNone} \<and> order R = 1 \<and>
      Relationship_start R = Inr RNone \<and> Relationship_end R = Inr RNone)"
proof -
  have p0: "PropertyContainer_init [] = Inr []"
    by (simp add: PropertyContainer_init_def PropertySet_init_def PropertySet_update_def
        dict_ctor_def)
  have p1: "PropertyContainer_init [(''since'', PInt 1999)] = Inr [(''since'', PInt 1999)]"
    by (simp add: PropertyContainer_init_def PropertySet_init_def PropertySet_update_def
        dict_ctor_def PropertySet_setitem_def JAVA_INTEGER_MIN_VALUE_def
        JAVA_INTEGER_MAX_VALUE_def)
  from Relationship_without_endpoints [of "[]" "[]" "[]" "RObj 1"] p0
    Relationship_without_endpoints [of "[RStr ''KNOWS'']" "[(''since'', PInt 1999)]"
      "[(''since'', PInt 1999)]" "RObj 1"] p1
  have "\<exists>R. Relationship_init (RObj 1) [] [] = Inr R \<and> endpoints R = [RNone, RNone] \<and>
      nodes R = {RNone} \<and> nodes R \<noteq> {} \<and> order R = 1 \<and>
      Relationship_start R = Inr RNone \<and> Relationship_end R = Inr RNone"
    and "\<exists>R. Relationship_init (RObj 1) [RStr ''KNOWS''] [(''since'', PInt 1999)] = Inr R \<and>
      endpoints R = [RNone, RNone] \<and> nodes R = {RNone} \<and> nodes R \<noteq> {} \<and> order R = 1 \<and>
      Relationship_start R = Inr RNone \<and> Relationship_end R = Inr RNone"
    by simp_all
  then show ?thesis by blast
qed

end
